theory Spec2Isabelle
  imports Complex_Main "HOL-Library.Monad_Syntax"
begin

section \<open>The water fragment shader (src/assets/water\_fragment.glsl)\<close>

text \<open>
  The shader is embedded over the real numbers: a GLSL \<open>float\<close> is a \<^typ>\<open>real\<close> and a
  \<open>vec2\<close>, \<open>vec3\<close> or \<open>vec4\<close> is a tuple. The arithmetic is exact: the rounding of the
  results of operations is not modelled, and a decimal literal of the source is the rational
  it denotes. There is one exception, the literal \<open>n_ = 0.142857142857\<close> of line 35. The
  source multiplies it by the integers \<open>j = 7 * k\<close> and takes the floor, so the result
  depends on the side of \<open>1 / 7\<close> on which the value of \<open>n_\<close> lies. The digits written are
  below \<open>1 / 7\<close>; the \<open>float\<close> that the literal denotes, the nearest number with a 24 bit
  significand, is \<open>9586981 / 2 ^ 26\<close> and lies above \<open>1 / 7\<close>. The embedding takes that
  \<open>float\<close> (lemma \<open>n_float_nearest\<close> below).

  An operation whose result GLSL leaves undefined (a division by zero, \<open>normalize\<close> of the
  zero vector, \<open>smoothstep\<close> with equal edges, \<open>atan\<close> of two zeros, \<open>pow\<close> of a negative
  base) returns \<open>None\<close>, and \<open>None\<close> propagates to the fragment colour.
\<close>

type_synonym vec2 = "real \<times> real"
type_synonym vec3 = "real \<times> real \<times> real"
type_synonym vec4 = "real \<times> real \<times> real \<times> real"

subsection \<open>GLSL built-ins\<close>

definition PI :: real where
  "PI = 3.14159265359"

definition floor_f :: "real \<Rightarrow> real" where
  "floor_f x = of_int \<lfloor>x\<rfloor>"

text \<open>\<open>step(edge, x)\<close> is 0.0 if \<open>x < edge\<close>, otherwise 1.0.\<close>

definition step :: "real \<Rightarrow> real \<Rightarrow> real" where
  "step edge x = (if x < edge then 0 else 1)"

text \<open>\<open>clamp(x, lo, hi)\<close> is \<open>min(max(x, lo), hi)\<close>.\<close>

definition clamp :: "real \<Rightarrow> real \<Rightarrow> real \<Rightarrow> real" where
  "clamp x lo hi = min (max x lo) hi"

text \<open>\<open>mix(x, y, a)\<close> is \<open>x * (1 - a) + y * a\<close>.\<close>

definition mix :: "real \<Rightarrow> real \<Rightarrow> real \<Rightarrow> real" where
  "mix x y a = x * (1 - a) + y * a"

fun mix3 :: "vec3 \<Rightarrow> vec3 \<Rightarrow> real \<Rightarrow> vec3" where
  "mix3 (cr, cg, cb) (dr, dg, db) a = (mix cr dr a, mix cg dg a, mix cb db a)"

fun clamp3 :: "vec3 \<Rightarrow> real \<Rightarrow> real \<Rightarrow> vec3" where
  "clamp3 (cr, cg, cb) lo hi = (clamp cr lo hi, clamp cg lo hi, clamp cb lo hi)"

text \<open>
  \<open>smoothstep(edge0, edge1, x)\<close> is \<open>t * t * (3 - 2 * t)\<close> for
  \<open>t = clamp((x - edge0) / (edge1 - edge0), 0, 1)\<close>. The shader also calls it with
  \<open>edge0 > edge1\<close> (a falling ramp), where the formula is still evaluated; with
  \<open>edge0 = edge1\<close> the formula divides by zero.
\<close>

definition smoothstep :: "real \<Rightarrow> real \<Rightarrow> real \<Rightarrow> real option" where
  "smoothstep edge0 edge1 x =
     (if edge1 - edge0 = 0 then None
      else let t = clamp ((x - edge0) / (edge1 - edge0)) 0 1 in Some (t * t * (3 - 2 * t)))"

text \<open>\<open>pow(x, y)\<close> is undefined if \<open>x < 0\<close>, and if \<open>x = 0\<close> and \<open>y \<le> 0\<close>.\<close>

definition pow :: "real \<Rightarrow> real \<Rightarrow> real option" where
  "pow x y = (if x < 0 \<or> (x = 0 \<and> y \<le> 0) then None else Some (x powr y))"

text \<open>The two-argument \<open>atan(y, x)\<close>: the angle of the point \<open>(x, y)\<close> in \<open>(-\<pi>, \<pi>]\<close>,
  undefined if both arguments are 0.\<close>

definition atan2 :: "real \<Rightarrow> real \<Rightarrow> real option" where
  "atan2 y x =
     (if x = 0 \<and> y = 0 then None
      else if 0 < x then Some (arctan (y / x))
      else if x < 0 then (if 0 \<le> y then Some (arctan (y / x) + pi) else Some (arctan (y / x) - pi))
      else (if 0 < y then Some (pi / 2) else Some (- pi / 2)))"

fun dot2 :: "vec2 \<Rightarrow> vec2 \<Rightarrow> real" where
  "dot2 (ax, ay) (bx, by) = ax * bx + ay * by"

fun dot3 :: "vec3 \<Rightarrow> vec3 \<Rightarrow> real" where
  "dot3 (ax, ay, az) (bx, by, bz) = ax * bx + ay * by + az * bz"

definition length2 :: "vec2 \<Rightarrow> real" where
  "length2 a = sqrt (dot2 a a)"

text \<open>\<open>normalize(v)\<close> is \<open>v / length(v)\<close>: a division by zero on the zero vector. It is
  \<open>normalize2\<close> here, and \<open>length\<close> is \<open>length2\<close>, since HOL has constants of these names.\<close>

fun normalize2 :: "vec2 \<Rightarrow> vec2 option" where
  "normalize2 (ax, ay) =
     (if length2 (ax, ay) = 0 then None
      else Some (ax / length2 (ax, ay), ay / length2 (ax, ay)))"

declare normalize2.simps [simp del]

text \<open>Division of two floats, undefined on a zero divisor.\<close>

definition fdiv :: "real \<Rightarrow> real \<Rightarrow> real option" where
  "fdiv a b = (if b = 0 then None else Some (a / b))"

subsection \<open>Simplex noise (lines 24-47)\<close>

definition mod289 :: "real \<Rightarrow> real" where
  "mod289 x = x - floor_f (x * (1 / 289)) * 289"

definition permute :: "real \<Rightarrow> real" where
  "permute x = mod289 (((x * 34) + 1) * x)"

definition taylorInvSqrt :: "real \<Rightarrow> real" where
  "taylorInvSqrt r = 1.79284291400159 - 0.85373472095314 * r"

text \<open>
  The source computes the four corner gradients \<open>p0 .. p3\<close> in the lanes of \<open>vec4\<close>
  values (lines 35-44). \<open>gradient\<close> is one lane of that computation, from the hashed
  index \<open>p\<close> of the corner to the scaled gradient: \<open>ns = n_ * D.wyz - D.xzx\<close> with
  \<open>D = (0, 0.5, 1, 2)\<close>; the source's \<open>n_\<close>, \<open>x_\<close> and \<open>y_\<close> are written \<open>n'\<close>, \<open>x'\<close> and
  \<open>y'\<close>. \<open>n_float\<close> is the value of the \<open>float\<close> literal \<open>0.142857142857\<close>.
\<close>

definition n_float :: real where
  "n_float = 9586981 / 2 ^ 26"

definition gradient :: "real \<Rightarrow> vec3" where
  "gradient p =
     (let n' = n_float;
          nsx = n' * 2 - 0; nsy = n' * 0.5 - 1; nsz = n' * 1 - 0;
          j = p - 49 * floor_f (p * nsz * nsz);
          x' = floor_f (j * nsz);
          y' = floor_f (j - 7 * x');
          x = x' * nsx + nsy;
          y = y' * nsx + nsy;
          h = 1 - \<bar>x\<bar> - \<bar>y\<bar>;
          sx = floor_f x * 2 + 1;
          sy = floor_f y * 2 + 1;
          sh = - step h 0;
          ax = x + sx * sh;
          ay = y + sy * sh;
          norm = taylorInvSqrt (dot3 (ax, ay, h) (ax, ay, h))
      in (ax * norm, ay * norm, h * norm))"

text \<open>One lane of \<open>m = max(0.51 - dot(x, x), 0.0); m = m * m; ... m * m * dot(p, x)\<close>.\<close>

definition corner :: "vec3 \<Rightarrow> vec3 \<Rightarrow> real" where
  "corner p x = (let m = max (0.51 - dot3 x x) 0; m2 = m * m in m2 * m2 * dot3 p x)"

definition snoise :: "vec3 \<Rightarrow> real" where
  "snoise v =
    (let vx = fst v; vy = fst (snd v); vz = snd (snd v);
         Cx = 1 / 6; Cy = 1 / 3;
         dv = dot3 v (Cy, Cy, Cy);
         ix = floor_f (vx + dv); iy = floor_f (vy + dv); iz = floor_f (vz + dv);
         di = dot3 (ix, iy, iz) (Cx, Cx, Cx);
         x0x = vx - ix + di; x0y = vy - iy + di; x0z = vz - iz + di;
         gx = step x0y x0x; gy = step x0z x0y; gz = step x0x x0z;
         lx = 1 - gx; ly = 1 - gy; lz = 1 - gz;
         i1x = min gx lz; i1y = min gy lx; i1z = min gz ly;
         i2x = max gx lz; i2y = max gy lx; i2z = max gz ly;
         x1 = (x0x - i1x + Cx, x0y - i1y + Cx, x0z - i1z + Cx);
         x2 = (x0x - i2x + Cy, x0y - i2y + Cy, x0z - i2z + Cy);
         x3 = (x0x - 0.5, x0y - 0.5, x0z - 0.5);
         jx = mod289 ix; jy = mod289 iy; jz = mod289 iz;
         pa = permute (permute (permute (jz + 0) + jy + 0) + jx + 0);
         pb = permute (permute (permute (jz + i1z) + jy + i1y) + jx + i1x);
         pc = permute (permute (permute (jz + i2z) + jy + i2y) + jx + i2x);
         pd = permute (permute (permute (jz + 1) + jy + 1) + jx + 1)
     in 105 * (corner (gradient pa) (x0x, x0y, x0z) + corner (gradient pb) x1
               + corner (gradient pc) x2 + corner (gradient pd) x3))"

subsection \<open>Inputs of one fragment\<close>

text \<open>
  The varyings \<open>vUv\<close>, \<open>vUv2\<close> and the uniforms \<open>resolution\<close>, \<open>time\<close>, \<open>patternScale\<close>,
  \<open>timeScale\<close> (lines 6-13). \<open>fwidth(noiseValue01)\<close> (lines 95 and 103) is a screen-space
  derivative: the rasteriser computes it from the neighbouring fragments, so it is an input
  of the fragment here, \<open>fwidthDark\<close> for the call of line 254 and \<open>fwidthFoam\<close> for the
  call of line 264.
\<close>

record fragment =
  vUv :: vec2
  vUv2 :: vec2
  resolution :: vec2
  time :: real
  patternScale :: real
  timeScale :: real
  fwidthDark :: real
  fwidthFoam :: real

subsection \<open>Helpers (lines 71-107)\<close>

definition calculate_main_current :: "real \<Rightarrow> vec2 \<Rightarrow> real \<Rightarrow> real \<Rightarrow> real \<Rightarrow> vec2" where
  "calculate_main_current ps st time_in freq strength =
     (let cx = fst st * ps * freq; cy = snd st * ps * freq;
          currentX = snoise (cx + 1.0, cy + 2.0, time_in + 3.0);
          currentY = snoise (cx + 5.2, cy + 1.3, time_in + (- 9.4))
      in (currentX * strength, currentY * strength))"

definition calculate_foam_current :: "real \<Rightarrow> vec2 \<Rightarrow> real \<Rightarrow> real \<Rightarrow> real \<Rightarrow> vec2" where
  "calculate_foam_current ps st time_in freq strength =
     (let cx = fst st * ps * freq + 10.0; cy = snd st * ps * freq + (- 5.0);
          currentX = snoise (cx + (- 7.1), cy + 8.5, time_in + 12.3);
          currentY = snoise (cx + 3.9, cy + (- 11.6), time_in + (- 1.7))
      in (currentX * strength, currentY * strength))"

text \<open>The first argument of the next two functions is the value of \<open>fwidth(noiseValue01)\<close>.\<close>

definition calculate_line_intensity :: "real \<Rightarrow> real \<Rightarrow> real \<Rightarrow> real \<Rightarrow> real option" where
  "calculate_line_intensity fwidth_nv noiseValue01 threshold sharpness =
     (let fw = fwidth_nv * sharpness in
      do {
        s \<leftarrow> smoothstep (threshold - fw) (threshold + fw) noiseValue01;
        Some (clamp (1.0 - s) 0.0 1.0)
      })"

definition calculate_band_intensity ::
    "real \<Rightarrow> real \<Rightarrow> real \<Rightarrow> real \<Rightarrow> real \<Rightarrow> real option" where
  "calculate_band_intensity fwidth_nv noiseValue01 bandStart bandEnd sharpness =
     (let fw = fwidth_nv * sharpness in
      do {
        rampUp \<leftarrow> smoothstep (bandStart - fw) (bandStart + fw) noiseValue01;
        rampDown \<leftarrow> smoothstep (bandEnd - fw) (bandEnd + fw) noiseValue01;
        Some (clamp (rampUp - rampDown) 0.0 1.0)
      })"

subsection \<open>Parameters of \<open>main\<close> (lines 136-211)\<close>

abbreviation (input) colorBackground :: vec3 where "colorBackground \<equiv> (0.15, 0.45, 0.80)"
abbreviation (input) colorDarkLine :: vec3 where "colorDarkLine \<equiv> (0.12, 0.42, 0.75)"
abbreviation (input) colorFoamLine :: vec3 where "colorFoamLine \<equiv> (0.95, 0.98, 1.00)"
abbreviation (input) colorStaticGlow :: vec3 where "colorStaticGlow \<equiv> (1.0, 1.0, 1.0)"
abbreviation (input) masterTimeFactor :: real where "masterTimeFactor \<equiv> 0.35"
abbreviation (input) mainCurrentFrequency :: real where "mainCurrentFrequency \<equiv> 2.8"
abbreviation (input) mainCurrentSpeed :: real where "mainCurrentSpeed \<equiv> 0.15"
abbreviation (input) mainCurrentStrength :: real where "mainCurrentStrength \<equiv> 0.025"
abbreviation (input) foamCurrentFrequency :: real where "foamCurrentFrequency \<equiv> 2.2"
abbreviation (input) foamCurrentSpeed :: real where "foamCurrentSpeed \<equiv> 0.12"
abbreviation (input) foamCurrentStrength :: real where "foamCurrentStrength \<equiv> 0.002"
abbreviation (input) darkWaveFrequency :: real where "darkWaveFrequency \<equiv> 8.0"
abbreviation (input) waveSpeedDark :: real where "waveSpeedDark \<equiv> 0.28"
abbreviation (input) darkLineThreshold :: real where "darkLineThreshold \<equiv> 0.5"
abbreviation (input) darkLineSharpness :: real where "darkLineSharpness \<equiv> 1.5"
abbreviation (input) foamBandFrequency :: real where "foamBandFrequency \<equiv> 12.0"
abbreviation (input) waveSpeedFoam :: real where "waveSpeedFoam \<equiv> 0.22"
abbreviation (input) foamBandStart :: real where "foamBandStart \<equiv> 0.58"
abbreviation (input) foamBandEnd :: real where "foamBandEnd \<equiv> 0.59"
abbreviation (input) foamBandSharpness :: real where "foamBandSharpness \<equiv> 5.0"
abbreviation (input) breakupNoiseFreq :: real where "breakupNoiseFreq \<equiv> 1.5"
abbreviation (input) breakupNoiseSpeed :: real where "breakupNoiseSpeed \<equiv> 0.15"
abbreviation (input) breakupStrength :: real where "breakupStrength \<equiv> 1.0"
abbreviation (input) breakupThreshold :: real where "breakupThreshold \<equiv> 0.65"
abbreviation (input) breakupSmoothness :: real where "breakupSmoothness \<equiv> 0.05"
abbreviation (input) darkLineOpacity :: real where "darkLineOpacity \<equiv> 0.90"
abbreviation (input) staticGlowAlpha :: real where "staticGlowAlpha \<equiv> 0.5"
abbreviation (input) staticGlowDistance :: real where "staticGlowDistance \<equiv> 0.25"
abbreviation (input) staticGlowSharpness :: real where "staticGlowSharpness \<equiv> 0.8"
abbreviation (input) staticGlowDarkBoost :: real where "staticGlowDarkBoost \<equiv> 1.8"
abbreviation (input) lapWaveSpeed :: real where "lapWaveSpeed \<equiv> 0.8"
abbreviation (input) lapWavePeakSharpness :: real where "lapWavePeakSharpness \<equiv> 8.0"
abbreviation (input) lapWaveRadialFreq :: real where "lapWaveRadialFreq \<equiv> 30.0"
abbreviation (input) lapWaveIntensityMultiplier :: real where "lapWaveIntensityMultiplier \<equiv> 1.0"
abbreviation (input) lapWaveDistortionFreq :: real where "lapWaveDistortionFreq \<equiv> 15.0"
abbreviation (input) lapWaveDistortionStrength :: real where "lapWaveDistortionStrength \<equiv> 0.10"
abbreviation (input) edgeWaveFadeDistance :: real where "edgeWaveFadeDistance \<equiv> 0.08"
abbreviation (input) radialWaveSpokeCount :: real where "radialWaveSpokeCount \<equiv> 60.0"
abbreviation (input) radialWaveFreq :: real where "radialWaveFreq \<equiv> 8.0"
abbreviation (input) radialWaveSpeed :: real where "radialWaveSpeed \<equiv> 0.3"
abbreviation (input) radialWaveRotationSpeed :: real where "radialWaveRotationSpeed \<equiv> 0.05"
abbreviation (input) radialWaveSharpness :: real where "radialWaveSharpness \<equiv> 35.0"
abbreviation (input) radialWaveIntensity :: real where "radialWaveIntensity \<equiv> 0.6"
abbreviation (input) radialWaveDistortionFreq :: real where "radialWaveDistortionFreq \<equiv> 25.0"
abbreviation (input) radialWaveDistortionStrength :: real where "radialWaveDistortionStrength \<equiv> 0.08"
abbreviation (input) radialWaveMaskFreq :: real where "radialWaveMaskFreq \<equiv> 1.8"
abbreviation (input) radialWaveMaskSpeed :: real where "radialWaveMaskSpeed \<equiv> 0.1"
abbreviation (input) radialWaveMaskThreshold :: real where "radialWaveMaskThreshold \<equiv> 0.55"
abbreviation (input) radialWaveMaskSmoothness :: real where "radialWaveMaskSmoothness \<equiv> 0.05"

subsection \<open>\<open>main\<close> (lines 130-350)\<close>

text \<open>
  Every local variable of \<open>main\<close> that a later line reads is a function of the fragment,
  under the name it has in the source. The breakup strength, the constant 1.0 of line 173,
  is the first argument \<open>s\<close> of the functions that depend on it; \<open>main\<close> passes
  \<open>breakupStrength\<close>.
\<close>

definition st_orig :: "fragment \<Rightarrow> vec2" where
  "st_orig f = vUv f"

definition st :: "fragment \<Rightarrow> vec2 option" where
  "st f = do {
     aspect \<leftarrow> fdiv (fst (resolution f)) (snd (resolution f));
     Some (fst (vUv2 f) * aspect, snd (vUv2 f) * 1.0)
   }"

definition masterTime :: "fragment \<Rightarrow> real" where
  "masterTime f = time f * masterTimeFactor * timeScale f"

text \<open>1. Distance to edge (lines 218-219).\<close>

definition distToEdge :: "fragment \<Rightarrow> real" where
  "distToEdge f =
     (let x = fst (st_orig f); y = snd (st_orig f)
      in max (min (min x (1.0 - x)) (min y (1.0 - y))) 0.0001)"

text \<open>2. Edge distortion vector (lines 223-227).\<close>

definition edgeDistortion :: "fragment \<Rightarrow> vec2" where
  "edgeDistortion f =
     (let cx = fst (st_orig f) * patternScale f * lapWaveDistortionFreq;
          cy = snd (st_orig f) * patternScale f * lapWaveDistortionFreq;
          cz = masterTime f * 0.2
      in (snoise (cx, cy, cz) * lapWaveDistortionStrength,
          snoise (cx + 17.8, cy + (- 5.3), cz + 29.1) * lapWaveDistortionStrength))"

text \<open>3. and 4. Advection currents and sampling coordinates (lines 230-235).\<close>

definition mainCurrentVector :: "fragment \<Rightarrow> vec2 option" where
  "mainCurrentVector f = do {
     p \<leftarrow> st f;
     Some (calculate_main_current (patternScale f) p (masterTime f * mainCurrentSpeed)
             mainCurrentFrequency mainCurrentStrength)
   }"

definition foamCurrentVector :: "fragment \<Rightarrow> vec2 option" where
  "foamCurrentVector f = do {
     p \<leftarrow> st f;
     Some (calculate_foam_current (patternScale f) p (masterTime f * foamCurrentSpeed)
             foamCurrentFrequency foamCurrentStrength)
   }"

definition dark_final_st :: "fragment \<Rightarrow> vec2 option" where
  "dark_final_st f = do {
     p \<leftarrow> st f;
     c \<leftarrow> mainCurrentVector f;
     Some (fst p + fst c, snd p + snd c)
   }"

definition foam_final_st :: "fragment \<Rightarrow> vec2 option" where
  "foam_final_st f = do {
     p \<leftarrow> st f;
     c \<leftarrow> foamCurrentVector f;
     Some (fst p + fst c, snd p + snd c)
   }"

text \<open>5. Breakup mask (lines 239-246).\<close>

definition breakupMaskNoise :: "fragment \<Rightarrow> real option" where
  "breakupMaskNoise f = do {
     p \<leftarrow> st f;
     Some (snoise (fst p * patternScale f * breakupNoiseFreq,
                   snd p * patternScale f * breakupNoiseFreq,
                   masterTime f * breakupNoiseSpeed) * 0.5 + 0.5)
   }"

definition breakupMask :: "fragment \<Rightarrow> real option" where
  "breakupMask f = do {
     n \<leftarrow> breakupMaskNoise f;
     smoothstep (breakupThreshold - breakupSmoothness * 0.5)
                (breakupThreshold + breakupSmoothness * 0.5) n
   }"

definition lineVisibilityMask :: "real \<Rightarrow> fragment \<Rightarrow> real option" where
  "lineVisibilityMask s f = do {
     m \<leftarrow> breakupMask f;
     Some (1.0 - m * s)
   }"

text \<open>Dark lines (lines 251-256).\<close>

definition darkNoiseValue01 :: "fragment \<Rightarrow> real option" where
  "darkNoiseValue01 f = do {
     p \<leftarrow> dark_final_st f;
     Some (snoise (fst p * patternScale f * darkWaveFrequency,
                   snd p * patternScale f * darkWaveFrequency,
                   masterTime f * waveSpeedDark) * 0.5 + 0.5)
   }"

definition darkLineIntensity :: "real \<Rightarrow> fragment \<Rightarrow> real option" where
  "darkLineIntensity s f = do {
     vis \<leftarrow> lineVisibilityMask s f;
     n \<leftarrow> darkNoiseValue01 f;
     li \<leftarrow> calculate_line_intensity (fwidthDark f) n darkLineThreshold darkLineSharpness;
     Some (li * darkLineOpacity * vis)
   }"

text \<open>Foam band (lines 261-265).\<close>

definition foamSimplexValue01 :: "fragment \<Rightarrow> real option" where
  "foamSimplexValue01 f = do {
     p \<leftarrow> foam_final_st f;
     Some (snoise (fst p * patternScale f * foamBandFrequency,
                   snd p * patternScale f * foamBandFrequency,
                   masterTime f * waveSpeedFoam) * 0.5 + 0.5)
   }"

definition foamIntensity_base :: "fragment \<Rightarrow> real option" where
  "foamIntensity_base f = do {
     n \<leftarrow> foamSimplexValue01 f;
     calculate_band_intensity (fwidthFoam f) n foamBandStart foamBandEnd foamBandSharpness
   }"

definition foamIntensity_masked :: "real \<Rightarrow> fragment \<Rightarrow> real option" where
  "foamIntensity_masked s f = do {
     vis \<leftarrow> lineVisibilityMask s f;
     b \<leftarrow> foamIntensity_base f;
     Some (b * vis)
   }"

text \<open>Static edge glow (lines 273-274), as a function of the distance to the edge.\<close>

definition staticGlowFactor :: "real \<Rightarrow> real option" where
  "staticGlowFactor d = do {
     g \<leftarrow> smoothstep staticGlowDistance 0.0 d;
     p \<leftarrow> pow g staticGlowSharpness;
     Some (g * p)
   }"

text \<open>Lapping waves at the edge (lines 280-298).\<close>

definition distortedDistToEdge :: "fragment \<Rightarrow> real option" where
  "distortedDistToEdge f = do {
     n \<leftarrow> normalize2 (fst (st_orig f) - 0.5, snd (st_orig f) - 0.5);
     Some (max (distToEdge f - dot2 (edgeDistortion f) n * 0.5) 0.0001)
   }"

text \<open>
  Lines 283-298 read the value that line 281 assigns to \<open>distortedDistToEdge\<close>; that value
  is the first argument of \<open>lapLineIntensity_from\<close>.
\<close>

definition lapLineIntensity_from :: "real option \<Rightarrow> fragment \<Rightarrow> real option" where
  "lapLineIntensity_from dd f = do {
     d \<leftarrow> dd;
     let radialPhase = d * lapWaveRadialFreq - masterTime f * lapWaveSpeed;
     let waveValue = sin (radialPhase * PI * 2.0) * 0.5 + 0.5;
     sharpWave \<leftarrow> pow waveValue lapWavePeakSharpness;
     fade \<leftarrow> smoothstep edgeWaveFadeDistance 0.0 d;
     Some (clamp (sharpWave * lapWaveIntensityMultiplier * fade) 0.0 1.0)
   }"

definition lapLineIntensity_final :: "fragment \<Rightarrow> real option" where
  "lapLineIntensity_final f = lapLineIntensity_from (distortedDistToEdge f) f"

text \<open>Radial waves (lines 302-329); the source's \<open>angle\<close> is updated twice.\<close>

definition radialWaveIntensity_final :: "fragment \<Rightarrow> real option" where
  "radialWaveIntensity_final f = do {
     p \<leftarrow> st f;
     let dir = (fst p - 0.7, snd p - 0.5);
     let distFromCenter = length2 dir;
     angle \<leftarrow> atan2 (snd dir) (fst dir);
     let angle' = angle + masterTime f * radialWaveRotationSpeed;
     let angleDistortion = snoise (fst p * patternScale f * radialWaveDistortionFreq,
                                   snd p * patternScale f * radialWaveDistortionFreq,
                                   masterTime f * 0.8) * radialWaveDistortionStrength;
     let angle'' = angle' + angleDistortion;
     let radialWavePattern = sin (angle'' * radialWaveSpokeCount + distFromCenter * radialWaveFreq
                                  - masterTime f * radialWaveSpeed) * 0.5 + 0.5;
     radialWaveLines \<leftarrow> pow radialWavePattern radialWaveSharpness;
     let radialMaskNoise = snoise (fst p * patternScale f * radialWaveMaskFreq,
                                   snd p * patternScale f * radialWaveMaskFreq,
                                   masterTime f * radialWaveMaskSpeed) * 0.5 + 0.5;
     radialMask \<leftarrow> smoothstep radialWaveMaskThreshold
                    (radialWaveMaskThreshold + radialWaveMaskSmoothness) radialMaskNoise;
     Some (clamp (radialWaveLines * radialWaveIntensity * radialMask) 0.0 1.0)
   }"

text \<open>Final compositing (lines 333-349).\<close>

definition baseColor :: "real \<Rightarrow> fragment \<Rightarrow> vec3 option" where
  "baseColor s f = do {
     d \<leftarrow> darkLineIntensity s f;
     Some (mix3 colorBackground colorDarkLine (clamp d 0.0 1.0))
   }"

definition glowBoost :: "real \<Rightarrow> fragment \<Rightarrow> real option" where
  "glowBoost s f = do {
     d \<leftarrow> darkLineIntensity s f;
     Some (mix 1.0 staticGlowDarkBoost (clamp d 0.0 1.0))
   }"

definition colorWithGlow :: "real \<Rightarrow> fragment \<Rightarrow> vec3 option" where
  "colorWithGlow s f = do {
     b \<leftarrow> baseColor s f;
     g \<leftarrow> staticGlowFactor (distToEdge f);
     k \<leftarrow> glowBoost s f;
     Some (fst b + fst colorStaticGlow * g * staticGlowAlpha * k,
           fst (snd b) + fst (snd colorStaticGlow) * g * staticGlowAlpha * k,
           snd (snd b) + snd (snd colorStaticGlow) * g * staticGlowAlpha * k)
   }"

text \<open>
  Line 340. \<open>totalFoamIntensity_from\<close> has the value that line 281 assigns to
  \<open>distortedDistToEdge\<close> as its first argument.
\<close>

definition totalFoamIntensity_from :: "real option \<Rightarrow> real \<Rightarrow> fragment \<Rightarrow> real option" where
  "totalFoamIntensity_from dd s f = do {
     fm \<leftarrow> foamIntensity_masked s f;
     lap \<leftarrow> lapLineIntensity_from dd f;
     rad \<leftarrow> radialWaveIntensity_final f;
     Some (clamp (fm + lap + rad) 0.0 1.0)
   }"

definition totalFoamIntensity :: "real \<Rightarrow> fragment \<Rightarrow> real option" where
  "totalFoamIntensity s f = totalFoamIntensity_from (distortedDistToEdge f) s f"

text \<open>\<open>finalColor\<close> after line 343, and after the clamp of line 346.\<close>

definition finalColor_mixed :: "real \<Rightarrow> fragment \<Rightarrow> vec3 option" where
  "finalColor_mixed s f = do {
     c \<leftarrow> colorWithGlow s f;
     t \<leftarrow> totalFoamIntensity s f;
     Some (mix3 c colorFoamLine t)
   }"

definition finalColor :: "real \<Rightarrow> fragment \<Rightarrow> vec3 option" where
  "finalColor s f = do {
     c \<leftarrow> finalColor_mixed s f;
     Some (clamp3 c 0.0 1.0)
   }"

text \<open>\<open>gl_FragColor = vec4(finalColor, 1.0)\<close>.\<close>

definition main :: "fragment \<Rightarrow> vec4 option" where
  "main f = do {
     c \<leftarrow> finalColor breakupStrength f;
     Some (fst c, fst (snd c), snd (snd c), 1.0)
   }"

subsection \<open>Three fragments\<close>

text \<open>
  Three fragments on which the shader is evaluated below, all drawn at the resolution 800 by
  600, at time 0. The first is a point a quarter of the height above the lower edge of the
  surface. The second lies close to the lower edge, where the lapping waves are drawn, at a
  point of the second UV map where the breakup mask is active. The third is the centre of
  the surface, where \<open>st_orig - 0.5\<close> is the zero vector.
\<close>

definition sample_fragment :: fragment where
  "sample_fragment =
     \<lparr>vUv = (0.5, 0.25), vUv2 = (0.875, 0.025), resolution = (800, 600), time = 0,
      patternScale = 1, timeScale = 1, fwidthDark = 0.4, fwidthFoam = 0.1\<rparr>"

definition edge_fragment :: fragment where
  "edge_fragment =
     \<lparr>vUv = (0.5, 0.005), vUv2 = (0.8, 0.2), resolution = (800, 600), time = 0,
      patternScale = 1, timeScale = 1, fwidthDark = 0.4, fwidthFoam = 0.1\<rparr>"

definition scenario_fragment :: fragment where
  "scenario_fragment =
     \<lparr>vUv = (0.5, 0.5), vUv2 = (0.5, 0.5), resolution = (800, 600), time = 0,
      patternScale = 1, timeScale = 1, fwidthDark = 0.01, fwidthFoam = 0.01\<rparr>"

text \<open>
  The argument of the polynomial in \<open>smoothstep(staticGlowDistance, 0.0, d)\<close> (line 273).
\<close>

abbreviation (input) glow_ramp :: "real \<Rightarrow> real" where
  "glow_ramp d \<equiv> clamp ((d - staticGlowDistance) / (0 - staticGlowDistance)) 0 1"

text \<open>The first fragment with another value of \<open>fwidth\<close> for the dark lines.\<close>

abbreviation (input) sample_with :: "real \<Rightarrow> fragment" where
  "sample_with w \<equiv> sample_fragment\<lparr>fwidthDark := w\<rparr>"



text \<open>The polynomial of \<open>smoothstep\<close>.\<close>

abbreviation (input) hermite :: "real \<Rightarrow> real" where
  "hermite t \<equiv> t * t * (3 - 2 * t)"

section \<open>Properties\<close>

subsection \<open>The literal of line 35\<close>

text \<open>
  \<open>n_float\<close> has a 24 bit significand, and no other multiple of \<open>2 ^ - 26\<close> is as near to
  the decimal \<open>0.142857142857\<close>; it lies above \<open>1 / 7\<close>, the decimal below.
\<close>

lemma n_float_nearest:
  fixes k :: int
  assumes "k \<noteq> 9586981"
  shows "\<bar>0.142857142857 - n_float\<bar> < \<bar>0.142857142857 - of_int k / 2 ^ 26\<bar>"
    and "(2::int) ^ 23 \<le> 9586981" and "(9586981::int) < 2 ^ 24"
proof -
  from assms consider "k \<le> 9586980" | "9586982 \<le> k" by linarith
  then show "\<bar>0.142857142857 - n_float\<bar> < \<bar>0.142857142857 - of_int k / 2 ^ 26\<bar>"
  proof cases
    case 1
    then have "(of_int k :: real) \<le> 9586980" by linarith
    then show ?thesis by (simp add: n_float_def field_simps)
  next
    case 2
    then have "9586982 \<le> (of_int k :: real)" by linarith
    then show ?thesis by (simp add: n_float_def field_simps)
  qed
qed simp_all

lemma n_float_side: "0.142857142857 < (1 / 7 :: real)" "1 / 7 < n_float"
  by (simp_all add: n_float_def)

text \<open>
  So the hashed indices \<open>j = 7 * k\<close> get \<open>x_ = k\<close> in line 37, and \<open>p = 49 * k\<close> gets
  \<open>j = 0\<close> in line 36.
\<close>

lemma n_float_floor:
  "floor_f (7 * n_float) = 1" "floor_f (21 * n_float) = 3" "floor_f (42 * n_float) = 6"
  "floor_f (49 * n_float * n_float) = 1" "floor_f (245 * n_float * n_float) = 5"
  by (simp_all add: n_float_def floor_f_def)

subsection \<open>The lapping wave and the total foam intensity\<close>

lemma lapLineIntensity_final_eq:
  "lapLineIntensity_final f = do {
     d \<leftarrow> distortedDistToEdge f;
     let radialPhase = d * lapWaveRadialFreq - masterTime f * lapWaveSpeed;
     let waveValue = sin (radialPhase * PI * 2.0) * 0.5 + 0.5;
     sharpWave \<leftarrow> pow waveValue lapWavePeakSharpness;
     fade \<leftarrow> smoothstep edgeWaveFadeDistance 0.0 d;
     Some (clamp (sharpWave * lapWaveIntensityMultiplier * fade) 0.0 1.0)
   }"
  by (simp add: lapLineIntensity_final_def lapLineIntensity_from_def)

lemma totalFoamIntensity_eq:
  "totalFoamIntensity s f = do {
     fm \<leftarrow> foamIntensity_masked s f;
     lap \<leftarrow> lapLineIntensity_final f;
     rad \<leftarrow> radialWaveIntensity_final f;
     Some (clamp (fm + lap + rad) 0.0 1.0)
   }"
  by (simp add: totalFoamIntensity_def totalFoamIntensity_from_def lapLineIntensity_final_def)

subsection \<open>Ranges of the built-ins\<close>

lemma clamp_unit: "0 \<le> clamp x 0 1 \<and> clamp x 0 1 \<le> 1"
  by (simp add: clamp_def)

lemma smoothstep_defined: "e1 \<noteq> e0 \<Longrightarrow> \<exists>y. smoothstep e0 e1 x = Some y"
  by (simp add: smoothstep_def Let_def)

lemma smoothstep_poly_range:
  fixes t :: real
  assumes "0 \<le> t" "t \<le> 1"
  shows "0 \<le> t * t * (3 - 2 * t)" "t * t * (3 - 2 * t) \<le> 1"
proof -
  show "0 \<le> t * t * (3 - 2 * t)" using assms by simp
  have "1 - t * t * (3 - 2 * t) = (1 - t) * (1 - t) * (1 + 2 * t)" by (simp add: algebra_simps)
  moreover have "0 \<le> (1 - t) * (1 - t) * (1 + 2 * t)" using assms by simp
  ultimately show "t * t * (3 - 2 * t) \<le> 1" by linarith
qed

lemma smoothstep_range:
  assumes "smoothstep e0 e1 x = Some y"
  shows "0 \<le> y \<and> y \<le> 1"
proof -
  from assms obtain t where t: "t = clamp ((x - e0) / (e1 - e0)) 0 1" and y: "y = t * t * (3 - 2 * t)"
    by (auto simp: smoothstep_def Let_def split: if_splits)
  have "0 \<le> t" "t \<le> 1" using t clamp_unit by auto
  then show ?thesis using smoothstep_poly_range y by blast
qed

lemma pow_defined: "0 \<le> x \<Longrightarrow> 0 < y \<Longrightarrow> pow x y = Some (x powr y)"
  by (auto simp: pow_def)

lemma pow_nonneg: "pow x y = Some z \<Longrightarrow> 0 \<le> z"
  by (auto simp: pow_def split: if_splits)

subsection \<open>Where the shader is defined\<close>

lemma st_defined:
  "snd (resolution f) \<noteq> 0 \<Longrightarrow>
   st f = Some (fst (vUv2 f) * (fst (resolution f) / snd (resolution f)), snd (vUv2 f))"
  by (simp add: st_def fdiv_def)

lemma st_Some_iff: "(\<exists>p. st f = Some p) \<longleftrightarrow> snd (resolution f) \<noteq> 0"
  by (auto simp: st_def fdiv_def bind_eq_Some_conv)

lemma breakupMask_defined: "st f = Some p \<Longrightarrow> \<exists>m. breakupMask f = Some m"
  using smoothstep_defined [of "breakupThreshold + breakupSmoothness * 0.5" "breakupThreshold - breakupSmoothness * 0.5"]
  by (simp add: breakupMask_def breakupMaskNoise_def)

lemma lineVisibilityMask_defined: "st f = Some p \<Longrightarrow> \<exists>v. lineVisibilityMask s f = Some v"
  using breakupMask_defined [of f p] by (auto simp: lineVisibilityMask_def)

lemma calculate_line_intensity_defined:
  "w \<noteq> 0 \<Longrightarrow> \<exists>y. calculate_line_intensity w n darkLineThreshold darkLineSharpness = Some y"
  using smoothstep_defined [of "darkLineThreshold + w * darkLineSharpness" "darkLineThreshold - w * darkLineSharpness" n]
  by (auto simp: calculate_line_intensity_def Let_def)

lemma calculate_band_intensity_defined:
  "w \<noteq> 0 \<Longrightarrow> \<exists>y. calculate_band_intensity w n foamBandStart foamBandEnd foamBandSharpness = Some y"
  using smoothstep_defined [of "foamBandStart + w * foamBandSharpness" "foamBandStart - w * foamBandSharpness" n]
    smoothstep_defined [of "foamBandEnd + w * foamBandSharpness" "foamBandEnd - w * foamBandSharpness" n]
  by (auto simp: calculate_band_intensity_def Let_def)

lemma darkLineIntensity_defined:
  assumes "st f = Some p" "fwidthDark f \<noteq> 0"
  shows "\<exists>d. darkLineIntensity s f = Some d"
proof -
  obtain v where v: "lineVisibilityMask s f = Some v"
    using lineVisibilityMask_defined [OF assms(1)] by blast
  have n: "darkNoiseValue01 f \<noteq> None"
    using assms(1) by (simp add: darkNoiseValue01_def dark_final_st_def mainCurrentVector_def)
  then obtain n where n: "darkNoiseValue01 f = Some n" by blast
  obtain y where "calculate_line_intensity (fwidthDark f) n darkLineThreshold darkLineSharpness = Some y"
    using calculate_line_intensity_defined [OF assms(2)] by blast
  with v n have "darkLineIntensity s f = Some (y * darkLineOpacity * v)"
    by (simp add: darkLineIntensity_def)
  then show ?thesis by blast
qed

lemma foamIntensity_base_defined:
  assumes "st f = Some p" "fwidthFoam f \<noteq> 0"
  shows "\<exists>b. foamIntensity_base f = Some b"
proof -
  have "foamSimplexValue01 f \<noteq> None"
    using assms(1) by (simp add: foamSimplexValue01_def foam_final_st_def foamCurrentVector_def)
  then obtain n where n: "foamSimplexValue01 f = Some n" by blast
  obtain y where "calculate_band_intensity (fwidthFoam f) n foamBandStart foamBandEnd foamBandSharpness = Some y"
    using calculate_band_intensity_defined [OF assms(2)] by blast
  with n show ?thesis by (simp add: foamIntensity_base_def)
qed

lemma foamIntensity_masked_defined:
  assumes "st f = Some p" "fwidthFoam f \<noteq> 0"
  shows "\<exists>b. foamIntensity_masked s f = Some b"
  using lineVisibilityMask_defined [OF assms(1), of s] foamIntensity_base_defined [OF assms]
  by (auto simp: foamIntensity_masked_def)

lemma staticGlowFactor_defined: "\<exists>g. staticGlowFactor d = Some g \<and> 0 \<le> g"
proof -
  obtain g where g: "smoothstep staticGlowDistance 0 d = Some g"
    using smoothstep_defined [of 0 staticGlowDistance d] by auto
  then have "0 \<le> g" using smoothstep_range by blast
  then have "pow g staticGlowSharpness = Some (g powr staticGlowSharpness)"
    by (simp add: pow_defined)
  with g \<open>0 \<le> g\<close> show ?thesis by (simp add: staticGlowFactor_def)
qed

lemma normalize_defined: "v \<noteq> (0, 0) \<Longrightarrow> \<exists>n. normalize2 v = Some n"
proof (cases v)
  case (Pair a b)
  assume "v \<noteq> (0, 0)"
  with Pair have "a \<noteq> 0 \<or> b \<noteq> 0" by simp
  then have "a * a + b * b \<noteq> 0" by (metis mult_eq_0_iff sum_squares_eq_zero_iff)
  then show ?thesis using Pair by (simp add: normalize2.simps length2_def)
qed

lemma normalize_zero: "normalize2 (0, 0) = None"
  by (simp add: normalize2.simps length2_def)

lemma sine_wave_nonneg: "0 \<le> sin w * 0.5 + (0.5::real)"
proof -
  have "- 1 \<le> sin w" by (rule sin_ge_minus_one)
  then show ?thesis by linarith
qed

lemma pow_sine_wave: "0 < y \<Longrightarrow> pow (sin w * 0.5 + 0.5) y = Some ((sin w * 0.5 + 0.5) powr y)"
  using sine_wave_nonneg [of w] by (simp add: pow_defined)

lemma lapLineIntensity_final_eqined:
  assumes "vUv f \<noteq> (0.5, 0.5)"
  shows "\<exists>l. lapLineIntensity_final f = Some l"
proof -
  have "(fst (st_orig f) - 0.5, snd (st_orig f) - 0.5) \<noteq> (0, 0)"
    using assms by (cases "vUv f") (auto simp: st_orig_def)
  then obtain n where "normalize2 (fst (st_orig f) - 0.5, snd (st_orig f) - 0.5) = Some n"
    using normalize_defined by blast
  then obtain d where d: "distortedDistToEdge f = Some d"
    by (simp add: distortedDistToEdge_def)
  have "\<exists>y. smoothstep edgeWaveFadeDistance 0 d = Some y"
    using smoothstep_defined [of 0 edgeWaveFadeDistance d] by simp
  then obtain y where "smoothstep edgeWaveFadeDistance 0 d = Some y" by blast
  then show ?thesis
    using d pow_sine_wave [of lapWavePeakSharpness]
    by (simp add: lapLineIntensity_final_eq Let_def)
qed

lemma atan2_defined: "(x, y) \<noteq> (0, 0) \<Longrightarrow> atan2 y x \<noteq> None"
  by (simp add: atan2_def del: not_None_eq)

lemma radialWaveIntensity_final_defined:
  assumes "st f = Some p" "p \<noteq> (0.7, 0.5)"
  shows "\<exists>r. radialWaveIntensity_final f = Some r"
proof -
  have "(fst p - 0.7, snd p - 0.5) \<noteq> (0, 0)"
    using assms(2) by (cases p) auto
  then obtain a where a: "atan2 (snd p - 0.5) (fst p - 0.7) = Some a"
    using atan2_defined [of "fst p - 0.7" "snd p - 0.5"] by auto
  have "\<And>n. \<exists>y. smoothstep radialWaveMaskThreshold (radialWaveMaskThreshold + radialWaveMaskSmoothness) n = Some y"
    using smoothstep_defined [of "radialWaveMaskThreshold + radialWaveMaskSmoothness" radialWaveMaskThreshold] by simp
  then show ?thesis
    using assms(1) a pow_sine_wave [of radialWaveSharpness]
    by (auto simp: radialWaveIntensity_final_def Let_def bind_eq_Some_conv)
qed

lemma main_defined:
  assumes "snd (resolution f) \<noteq> 0"
    and "vUv f \<noteq> (0.5, 0.5)"
    and "(fst (vUv2 f) * (fst (resolution f) / snd (resolution f)), snd (vUv2 f)) \<noteq> (0.7, 0.5)"
    and "fwidthDark f \<noteq> 0"
    and "fwidthFoam f \<noteq> 0"
  shows "\<exists>c. finalColor s f = Some c" "\<exists>c. main f = Some c"
proof -
  let ?p = "(fst (vUv2 f) * (fst (resolution f) / snd (resolution f)), snd (vUv2 f))"
  have p: "st f = Some ?p" using assms(1) by (rule st_defined)
  have fc: "\<exists>c. finalColor s f = Some c" for s
  proof -
    obtain d where d: "darkLineIntensity s f = Some d"
      using darkLineIntensity_defined [OF p assms(4)] by blast
    obtain g where g: "staticGlowFactor (distToEdge f) = Some g"
      using staticGlowFactor_defined by blast
    obtain fm where fm: "foamIntensity_masked s f = Some fm"
      using foamIntensity_masked_defined [OF p assms(5)] by blast
    obtain l where l: "lapLineIntensity_final f = Some l"
      using lapLineIntensity_final_eqined [OF assms(2)] by blast
    obtain r where r: "radialWaveIntensity_final f = Some r"
      using radialWaveIntensity_final_defined [OF p assms(3)] by blast
    show ?thesis
      using d g fm l r
      by (simp add: finalColor_def finalColor_mixed_def colorWithGlow_def baseColor_def
          glowBoost_def totalFoamIntensity_eq)
  qed
  show "\<exists>c. finalColor s f = Some c" by (rule fc)
  show "\<exists>c. main f = Some c" using fc [of breakupStrength] by (auto simp: main_def)
qed

lemma sample_fragment_defined:
  "\<exists>c. finalColor s sample_fragment = Some c" "\<exists>c. main sample_fragment = Some c"
  by (rule main_defined; simp add: sample_fragment_def)+

subsection \<open>Bounds of the compositing\<close>

lemma mix_lower:
  assumes "lo \<le> x" "lo \<le> y" "0 \<le> a" "a \<le> 1"
  shows "lo \<le> mix x y a"
proof -
  have "lo * (1 - a) \<le> x * (1 - a)" using assms by (intro mult_right_mono) auto
  moreover have "lo * a \<le> y * a" using assms by (intro mult_right_mono) auto
  ultimately have "lo * (1 - a) + lo * a \<le> x * (1 - a) + y * a" by linarith
  then show ?thesis by (simp add: mix_def algebra_simps)
qed

lemma clamp_lower_inactive: "0 \<le> x \<Longrightarrow> clamp x 0 1 = min x 1"
  by (simp add: clamp_def)

lemma colorWithGlow_lower:
  assumes "colorWithGlow s f = Some (r, g, b)"
  shows "0.12 \<le> r \<and> 0.12 \<le> g \<and> 0.12 \<le> b"
proof -
  from assms obtain d gl d' where d: "darkLineIntensity s f = Some d"
    and gl: "staticGlowFactor (distToEdge f) = Some gl"
    and d': "darkLineIntensity s f = Some d'"
    and rgb: "(r, g, b) = (mix 0.15 0.12 (clamp d 0 1) + 1 * gl * 0.5 * mix 1 1.8 (clamp d' 0 1),
                           mix 0.45 0.42 (clamp d 0 1) + 1 * gl * 0.5 * mix 1 1.8 (clamp d' 0 1),
                           mix 0.80 0.75 (clamp d 0 1) + 1 * gl * 0.5 * mix 1 1.8 (clamp d' 0 1))"
    by (auto simp: colorWithGlow_def baseColor_def glowBoost_def bind_eq_Some_conv)
  have a: "0 \<le> clamp d 0 1" "clamp d 0 1 \<le> 1" "0 \<le> clamp d' 0 1" "clamp d' 0 1 \<le> 1"
    using clamp_unit by auto
  have "0 \<le> gl" using staticGlowFactor_defined [of "distToEdge f"] gl by auto
  moreover have "1 \<le> mix 1 1.8 (clamp d' 0 1)" using a by (intro mix_lower) auto
  ultimately have glow: "0 \<le> 1 * gl * 0.5 * mix 1 1.8 (clamp d' 0 1)" by simp
  have "0.12 \<le> mix 0.15 0.12 (clamp d 0 1)" using a by (intro mix_lower) auto
  moreover have "0.12 \<le> mix 0.45 0.42 (clamp d 0 1)" using a by (intro mix_lower) auto
  moreover have "0.12 \<le> mix 0.80 0.75 (clamp d 0 1)" using a by (intro mix_lower) auto
  ultimately show ?thesis using glow rgb by auto
qed

lemma totalFoamIntensity_range:
  "totalFoamIntensity s f = Some t \<Longrightarrow> 0 \<le> t \<and> t \<le> 1"
  using clamp_unit by (auto simp: totalFoamIntensity_eq bind_eq_Some_conv)

lemma finalColor_mixed_lower:
  assumes "finalColor_mixed s f = Some (r, g, b)"
  shows "0.12 \<le> r \<and> 0.12 \<le> g \<and> 0.12 \<le> b"
proof -
  from assms obtain c t where c: "colorWithGlow s f = Some c"
    and t: "totalFoamIntensity s f = Some t" and m: "(r, g, b) = mix3 c colorFoamLine t"
    by (auto simp: finalColor_mixed_def bind_eq_Some_conv)
  obtain cr cg cb where c': "c = (cr, cg, cb)" by (cases c) auto
  have lo: "0.12 \<le> cr \<and> 0.12 \<le> cg \<and> 0.12 \<le> cb"
    using colorWithGlow_lower c c' by blast
  have t01: "0 \<le> t" "t \<le> 1" using totalFoamIntensity_range [OF t] by auto
  have "0.12 \<le> mix cr 0.95 t" using lo t01 by (intro mix_lower) auto
  moreover have "0.12 \<le> mix cg 0.98 t" using lo t01 by (intro mix_lower) auto
  moreover have "0.12 \<le> mix cb 1.00 t" using lo t01 by (intro mix_lower) auto
  ultimately show ?thesis using m c' by simp
qed

subsection \<open>What the output depends on\<close>

text \<open>
  The colour is computed from \<open>vUv\<close>, \<open>vUv2\<close>, \<open>resolution\<close>, \<open>patternScale\<close> and
  \<open>masterTime\<close>, and from the two intensities that read a value of \<open>fwidth\<close>.
\<close>

lemma main_cong_stages:
  assumes "vUv f = vUv f'" "vUv2 f = vUv2 f'" "resolution f = resolution f'"
    "patternScale f = patternScale f'" "masterTime f = masterTime f'"
    and dark: "\<And>s. darkLineIntensity s f = darkLineIntensity s f'"
    and foam: "foamIntensity_base f = foamIntensity_base f'"
  shows "main f = main f'"
proof -
  note assms(1-5) [simp]
  have [simp]: "st_orig f = st_orig f'" by (simp add: st_orig_def)
  have [simp]: "st f = st f'" by (simp add: st_def)
  have [simp]: "distToEdge f = distToEdge f'" by (simp add: distToEdge_def)
  have [simp]: "edgeDistortion f = edgeDistortion f'" by (simp add: edgeDistortion_def)
  have [simp]: "breakupMaskNoise f = breakupMaskNoise f'" by (simp add: breakupMaskNoise_def)
  have [simp]: "breakupMask f = breakupMask f'" by (simp add: breakupMask_def)
  have [simp]: "lineVisibilityMask s f = lineVisibilityMask s f'" for s
    by (simp add: lineVisibilityMask_def)
  have [simp]: "foamIntensity_masked s f = foamIntensity_masked s f'" for s
    by (simp add: foamIntensity_masked_def foam)
  have [simp]: "distortedDistToEdge f = distortedDistToEdge f'"
    by (simp add: distortedDistToEdge_def)
  have [simp]: "lapLineIntensity_final f = lapLineIntensity_final f'"
    by (simp add: lapLineIntensity_final_eq)
  have [simp]: "radialWaveIntensity_final f = radialWaveIntensity_final f'"
    by (simp add: radialWaveIntensity_final_def)
  have [simp]: "baseColor s f = baseColor s f'" for s by (simp add: baseColor_def dark)
  have [simp]: "glowBoost s f = glowBoost s f'" for s by (simp add: glowBoost_def dark)
  have [simp]: "colorWithGlow s f = colorWithGlow s f'" for s by (simp add: colorWithGlow_def)
  have [simp]: "totalFoamIntensity s f = totalFoamIntensity s f'" for s
    by (simp add: totalFoamIntensity_eq)
  have [simp]: "finalColor_mixed s f = finalColor_mixed s f'" for s
    by (simp add: finalColor_mixed_def)
  have [simp]: "finalColor s f = finalColor s f'" for s by (simp add: finalColor_def)
  show ?thesis by (simp add: main_def)
qed

lemma noise_values_cong:
  assumes "vUv2 f = vUv2 f'" "resolution f = resolution f'"
    "patternScale f = patternScale f'" "masterTime f = masterTime f'"
  shows "lineVisibilityMask s f = lineVisibilityMask s f'"
    and "darkNoiseValue01 f = darkNoiseValue01 f'"
    and "foamSimplexValue01 f = foamSimplexValue01 f'"
proof -
  note assms [simp]
  have [simp]: "st f = st f'" by (simp add: st_def)
  have [simp]: "mainCurrentVector f = mainCurrentVector f'" by (simp add: mainCurrentVector_def)
  have [simp]: "foamCurrentVector f = foamCurrentVector f'" by (simp add: foamCurrentVector_def)
  have [simp]: "dark_final_st f = dark_final_st f'" by (simp add: dark_final_st_def)
  have [simp]: "foam_final_st f = foam_final_st f'" by (simp add: foam_final_st_def)
  show "lineVisibilityMask s f = lineVisibilityMask s f'"
    by (simp add: lineVisibilityMask_def breakupMask_def breakupMaskNoise_def)
  show "darkNoiseValue01 f = darkNoiseValue01 f'" by (simp add: darkNoiseValue01_def)
  show "foamSimplexValue01 f = foamSimplexValue01 f'" by (simp add: foamSimplexValue01_def)
qed

lemma main_cong:
  assumes "vUv f = vUv f'" "vUv2 f = vUv2 f'" "resolution f = resolution f'"
    "patternScale f = patternScale f'" "masterTime f = masterTime f'"
    "fwidthDark f = fwidthDark f'" "fwidthFoam f = fwidthFoam f'"
  shows "main f = main f'"
proof (rule main_cong_stages)
  show "darkLineIntensity s f = darkLineIntensity s f'" for s
    using noise_values_cong [OF assms(2-5)] assms(6) by (simp add: darkLineIntensity_def)
  show "foamIntensity_base f = foamIntensity_base f'"
    using noise_values_cong [OF assms(2-5)] assms(7) by (simp add: foamIntensity_base_def)
qed (rule assms)+

text \<open>
  The lapping wave is computed from \<open>vUv\<close>, \<open>patternScale\<close> and \<open>masterTime\<close>: it reads
  neither \<open>vUv2\<close> nor \<open>resolution\<close>, from which the breakup mask is computed.
\<close>

lemma lapLineIntensity_final_cong:
  assumes "vUv f = vUv f'" "patternScale f = patternScale f'" "masterTime f = masterTime f'"
  shows "lapLineIntensity_final f = lapLineIntensity_final f'"
proof -
  note assms [simp]
  have [simp]: "st_orig f = st_orig f'" by (simp add: st_orig_def)
  have [simp]: "distToEdge f = distToEdge f'" by (simp add: distToEdge_def)
  have [simp]: "edgeDistortion f = edgeDistortion f'" by (simp add: edgeDistortion_def)
  have "distortedDistToEdge f = distortedDistToEdge f'" by (simp add: distortedDistToEdge_def)
  then show ?thesis by (simp add: lapLineIntensity_final_eq)
qed

subsection \<open>The static glow\<close>

lemma smoothstep_poly_mono:
  fixes a b :: real
  assumes "0 \<le> a" "a \<le> b" "b \<le> 1"
  shows "a * a * (3 - 2 * a) \<le> b * b * (3 - 2 * b)"
proof -
  have ab: "a * b \<le> a" "a * b \<le> b" "a * a \<le> a" "b * b \<le> b"
    using assms by (simp_all add: mult_left_le mult_left_le_one_le mult_right_le_one_le)
  have "0 \<le> (b - a) * (3 * (a + b) - 2 * (a * a + a * b + b * b))"
    using assms ab by (intro mult_nonneg_nonneg) auto
  moreover have "(b - a) * (3 * (a + b) - 2 * (a * a + a * b + b * b))
      = b * b * (3 - 2 * b) - a * a * (3 - 2 * a)"
    by (simp add: algebra_simps)
  ultimately show ?thesis by linarith
qed

lemma clamp_mono: "x \<le> y \<Longrightarrow> clamp x lo hi \<le> clamp y lo hi"
  by (auto simp: clamp_def min_def max_def)

lemma staticGlowFactor_eq:
  "staticGlowFactor d =
     Some (let t = glow_ramp d; g = t * t * (3 - 2 * t) in g * g powr staticGlowSharpness)"
proof -
  let ?t = "glow_ramp d"
  have g: "smoothstep staticGlowDistance 0 d = Some (?t * ?t * (3 - 2 * ?t))"
    by (simp add: smoothstep_def Let_def)
  have "0 \<le> ?t" "?t \<le> 1" using clamp_unit by auto
  then have "0 \<le> ?t * ?t * (3 - 2 * ?t)" using smoothstep_poly_range by blast
  then have "pow (?t * ?t * (3 - 2 * ?t)) staticGlowSharpness
      = Some ((?t * ?t * (3 - 2 * ?t)) powr staticGlowSharpness)"
    by (simp add: pow_defined)
  with g show ?thesis by (simp add: staticGlowFactor_def Let_def)
qed

lemma glow_shape_mono:
  fixes s1 s2 :: real
  assumes "0 \<le> s2" "s2 \<le> s1"
  shows "s2 * s2 powr staticGlowSharpness \<le> s1 * s1 powr staticGlowSharpness"
proof -
  have "s2 powr staticGlowSharpness \<le> s1 powr staticGlowSharpness"
    using assms by (intro powr_mono2) auto
  moreover have "0 \<le> s1" using assms by linarith
  moreover have "0 \<le> s2 powr staticGlowSharpness" by simp
  ultimately show ?thesis using assms(2) by (intro mult_mono)
qed

lemma staticGlowFactor_antimono:
  assumes "d1 \<le> d2" "staticGlowFactor d1 = Some g1" "staticGlowFactor d2 = Some g2"
  shows "g2 \<le> g1"
proof -
  define t1 where "t1 = glow_ramp d1"
  define t2 where "t2 = glow_ramp d2"
  define s1 where "s1 = t1 * t1 * (3 - 2 * t1)"
  define s2 where "s2 = t2 * t2 * (3 - 2 * t2)"
  have "(d2 - staticGlowDistance) / (0 - staticGlowDistance) \<le> (d1 - staticGlowDistance) / (0 - staticGlowDistance)"
    using assms(1) by simp
  then have t: "t2 \<le> t1" unfolding t1_def t2_def by (rule clamp_mono)
  have r: "0 \<le> t2" "t1 \<le> 1" using clamp_unit by (auto simp: t1_def t2_def)
  have s: "s2 \<le> s1" unfolding s1_def s2_def using r(1) t r(2) by (rule smoothstep_poly_mono)
  have "t2 \<le> 1" using t r by linarith
  then have s0: "0 \<le> s2" unfolding s2_def using r(1) smoothstep_poly_range by blast
  have "g1 = s1 * s1 powr staticGlowSharpness"
    using assms(2) staticGlowFactor_eq [of d1] by (simp add: Let_def s1_def t1_def)
  moreover have "g2 = s2 * s2 powr staticGlowSharpness"
    using assms(3) staticGlowFactor_eq [of d2] by (simp add: Let_def s2_def t2_def)
  ultimately show ?thesis using glow_shape_mono [OF s0 s] by simp
qed

subsection \<open>The centre of the surface\<close>

lemma center_undefined:
  assumes "vUv f = (0.5, 0.5)"
  shows "distortedDistToEdge f = None" "lapLineIntensity_final f = None"
    "totalFoamIntensity s f = None" "finalColor s f = None" "main f = None"
proof -
  show d: "distortedDistToEdge f = None"
    using assms normalize_zero by (simp add: distortedDistToEdge_def st_orig_def)
  then show l: "lapLineIntensity_final f = None" by (simp add: lapLineIntensity_final_eq)
  then show t: "totalFoamIntensity s f = None" for s
    by (simp add: totalFoamIntensity_eq split: Option.bind_splits)
  then show c: "finalColor s f = None" for s
    by (simp add: finalColor_def finalColor_mixed_def split: Option.bind_splits)
  then show "main f = None" by (simp add: main_def)
qed

text \<open>
  The shader returns a colour exactly on the fragments that avoid the four undefined
  operations: the division by \<open>resolution.y\<close> (line 134), \<open>normalize\<close> of the zero vector at
  the centre (line 280), \<open>atan\<close> of two zeros at \<open>st = (0.7, 0.5)\<close> (line 305), and
  \<open>smoothstep\<close> with equal edges where \<open>fwidth\<close> is 0 (lines 96, 104 and 105).
\<close>

lemma main_defined_iff:
  "main f \<noteq> None \<longleftrightarrow>
     snd (resolution f) \<noteq> 0 \<and> vUv f \<noteq> (0.5, 0.5) \<and>
     (fst (vUv2 f) * (fst (resolution f) / snd (resolution f)), snd (vUv2 f)) \<noteq> (0.7, 0.5) \<and>
     fwidthDark f \<noteq> 0 \<and> fwidthFoam f \<noteq> 0"
proof
  assume "snd (resolution f) \<noteq> 0 \<and> vUv f \<noteq> (0.5, 0.5) \<and>
     (fst (vUv2 f) * (fst (resolution f) / snd (resolution f)), snd (vUv2 f)) \<noteq> (0.7, 0.5) \<and>
     fwidthDark f \<noteq> 0 \<and> fwidthFoam f \<noteq> 0"
  then show "main f \<noteq> None" using main_defined(2) [of f] by auto
next
  assume m: "main f \<noteq> None"
  then obtain d fm l r where d: "darkLineIntensity breakupStrength f = Some d"
    and fm: "foamIntensity_masked breakupStrength f = Some fm"
    and l: "lapLineIntensity_final f = Some l"
    and r: "radialWaveIntensity_final f = Some r"
    by (auto simp: main_def finalColor_def finalColor_mixed_def colorWithGlow_def baseColor_def
        totalFoamIntensity_eq bind_eq_Some_conv)
  from r obtain p where p: "st f = Some p" and a: "atan2 (snd p - 0.5) (fst p - 0.7) \<noteq> None"
    by (auto simp: radialWaveIntensity_final_def Let_def bind_eq_Some_conv)
  have res: "snd (resolution f) \<noteq> 0" using p st_Some_iff by blast
  then have p': "p = (fst (vUv2 f) * (fst (resolution f) / snd (resolution f)), snd (vUv2 f))"
    using p st_defined [of f] by simp
  have "p \<noteq> (0.7, 0.5)" using a by (cases p) (auto simp: atan2_def)
  moreover have "vUv f \<noteq> (0.5, 0.5)" using center_undefined(2) [of f] l by auto
  moreover have "fwidthDark f \<noteq> 0"
    using d by (auto simp: darkLineIntensity_def calculate_line_intensity_def smoothstep_def
        Let_def bind_eq_Some_conv split: if_splits)
  moreover have "fwidthFoam f \<noteq> 0"
    using fm by (auto simp: foamIntensity_masked_def foamIntensity_base_def
        calculate_band_intensity_def smoothstep_def Let_def bind_eq_Some_conv split: if_splits)
  ultimately show "snd (resolution f) \<noteq> 0 \<and> vUv f \<noteq> (0.5, 0.5) \<and>
     (fst (vUv2 f) * (fst (resolution f) / snd (resolution f)), snd (vUv2 f)) \<noteq> (0.7, 0.5) \<and>
     fwidthDark f \<noteq> 0 \<and> fwidthFoam f \<noteq> 0"
    using res p' by simp
qed

subsection \<open>Evaluating the noise\<close>

lemma Let_rat: "Let (numeral a / numeral b :: real) f = f (numeral a / numeral b)" by simp
lemma Let_neg_rat: "Let (- (numeral a / numeral b) :: real) f = f (- (numeral a / numeral b))" by simp
lemma Let_tuple: "Let (a, b) f = f (a, b)" by simp
lemmas eval_let = Let_rat Let_neg_rat Let_tuple
lemmas noise_defs = snoise_def corner_def gradient_def n_float_def permute_def mod289_def floor_f_def step_def taylorInvSqrt_def

subsection \<open>The noise on a small box\<close>

text \<open>
  The dark lines and the foam band sample the noise at a coordinate that is itself moved by
  noise values (lines 234-235). On a small box around such a coordinate the simplex cell and
  the four gradients are fixed, and the noise is bounded from the bounds of the box.
\<close>

lemma near_lower:
  fixes x c e :: real
  shows "\<bar>x - c\<bar> < e \<Longrightarrow> lo \<le> c - e \<Longrightarrow> lo < x"
  by linarith

lemma near_upper:
  fixes x c e :: real
  shows "\<bar>x - c\<bar> < e \<Longrightarrow> c + e \<le> hi \<Longrightarrow> x < hi"
  by linarith

lemma floor_f_numeral:
  "numeral n \<le> x \<Longrightarrow> x < numeral n + 1 \<Longrightarrow> floor_f x = numeral n"
  using floor_unique [of "numeral n" x] by (simp add: floor_f_def)

lemma floor_f_zero: "0 \<le> x \<Longrightarrow> x < 1 \<Longrightarrow> floor_f x = 0"
  using floor_unique [of 0 x] by (simp add: floor_f_def)

lemmas gradient_eval = gradient_def n_float_def floor_f_def step_def taylorInvSqrt_def

lemma sq_lower:
  fixes x :: real
  assumes "0 \<le> c" "c \<le> \<bar>x\<bar>"
  shows "c * c \<le> x * x"
proof -
  have "c * c \<le> \<bar>x\<bar> * \<bar>x\<bar>" using assms by (intro mult_mono) auto
  then show ?thesis by simp
qed

lemma sq_upper:
  fixes x :: real
  assumes "\<bar>x\<bar> \<le> c"
  shows "x * x \<le> c * c"
proof -
  have "\<bar>x\<bar> * \<bar>x\<bar> \<le> c * c" using assms by (intro mult_mono) auto
  then show ?thesis by simp
qed

lemma corner_dead:
  fixes x y z :: real
  assumes "a \<le> x * x" "b \<le> y * y" "c \<le> z * z" "0.51 \<le> a + b + c"
  shows "corner p (x, y, z) = 0"
proof -
  have "0.51 \<le> dot3 (x, y, z) (x, y, z)" using assms by simp
  then show ?thesis by (simp add: corner_def Let_def max_def del: dot3.simps)
qed

lemma kernel_bounds:
  fixes x y z :: real
  assumes "al \<le> x * x" "x * x \<le> au" "bl \<le> y * y" "y * y \<le> bu" "cl \<le> z * z" "z * z \<le> cu"
  shows "0.51 - (au + bu + cu) \<le> 0.51 - dot3 (x, y, z) (x, y, z)"
    "0.51 - dot3 (x, y, z) (x, y, z) \<le> 0.51 - (al + bl + cl)"
  using assms by simp_all

lemma pow4_mono:
  fixes a b :: real
  assumes "0 \<le> a" "a \<le> b"
  shows "a * a * (a * a) \<le> b * b * (b * b)"
  using assms by (intro mult_mono) auto

lemma corner_bounds:
  assumes "0 \<le> ml" "ml \<le> 0.51 - dot3 x x" "0.51 - dot3 x x \<le> mu"
    and "dl \<le> dot3 p x" "dot3 p x \<le> du"
  shows "min (ml * ml * (ml * ml) * dl) (mu * mu * (mu * mu) * dl) \<le> corner p x"
    and "corner p x \<le> max (ml * ml * (ml * ml) * du) (mu * mu * (mu * mu) * du)"
proof -
  define m where "m = 0.51 - dot3 x x"
  define k where "k = m * m * (m * m)"
  have m: "0 \<le> m" "ml \<le> m" "m \<le> mu" using assms by (auto simp: m_def)
  have c: "corner p x = k * dot3 p x"
    using m(1) by (simp add: corner_def Let_def m_def k_def max_def)
  have lo: "ml * ml * (ml * ml) \<le> k" unfolding k_def using assms(1) m(2) by (rule pow4_mono)
  have hi: "k \<le> mu * mu * (mu * mu)" unfolding k_def using m(1) m(3) by (rule pow4_mono)
  have k0: "0 \<le> k" by (simp add: k_def)
  have l: "min (ml * ml * (ml * ml) * dl) (mu * mu * (mu * mu) * dl) \<le> k * dl"
  proof (cases "0 \<le> dl")
    case True
    then have "ml * ml * (ml * ml) * dl \<le> k * dl" using lo by (intro mult_right_mono)
    then show ?thesis by simp
  next
    case False
    then have "mu * mu * (mu * mu) * dl \<le> k * dl" using hi by (intro mult_right_mono_neg) auto
    then show ?thesis by simp
  qed
  have "k * dl \<le> k * dot3 p x" using assms(4) k0 by (rule mult_left_mono)
  with l show "min (ml * ml * (ml * ml) * dl) (mu * mu * (mu * mu) * dl) \<le> corner p x"
    unfolding c by linarith
  have u: "k * du \<le> max (ml * ml * (ml * ml) * du) (mu * mu * (mu * mu) * du)"
  proof (cases "0 \<le> du")
    case True
    then have "k * du \<le> mu * mu * (mu * mu) * du" using hi by (intro mult_right_mono)
    then show ?thesis by simp
  next
    case False
    then have "k * du \<le> ml * ml * (ml * ml) * du" using lo by (intro mult_right_mono_neg) auto
    then show ?thesis by simp
  qed
  have "k * dot3 p x \<le> k * du" using assms(5) k0 by (rule mult_left_mono)
  with u show "corner p x \<le> max (ml * ml * (ml * ml) * du) (mu * mu * (mu * mu) * du)"
    unfolding c by linarith
qed

subsection \<open>The noise at the three fragments\<close>

text \<open>
  The values of \<open>snoise\<close> that the layers read at the three fragments: at a rational point
  the noise is evaluated, and at a point moved by a current it is bounded on a box that
  contains the point.
\<close>

lemma sample_main_current_x:
  "- 0.0202843 < snoise (64 / 15, 207 / 100, 3) * 0.025" "snoise (64 / 15, 207 / 100, 3) * 0.025 < - 0.0202841"
proof -
  have n: "\<bar>snoise (64 / 15, 207 / 100, 3) * 0.025 - (- (101421 / 5000000))\<bar> < 1 / 10000000"
    by (simp add: noise_defs eval_let cong: let_weak_cong)
  show "- 0.0202843 < snoise (64 / 15, 207 / 100, 3) * 0.025" by (rule near_lower [OF n]) simp
  show "snoise (64 / 15, 207 / 100, 3) * 0.025 < - 0.0202841" by (rule near_upper [OF n]) simp
qed

lemma sample_main_current_y:
  "- 0.0147273 < snoise (127 / 15, 137 / 100, - (47 / 5)) * 0.025" "snoise (127 / 15, 137 / 100, - (47 / 5)) * 0.025 < - 0.0147271"
proof -
  have n: "\<bar>snoise (127 / 15, 137 / 100, - (47 / 5)) * 0.025 - (- (18409 / 1250000))\<bar> < 1 / 10000000"
    by (simp add: noise_defs eval_let cong: let_weak_cong)
  show "- 0.0147273 < snoise (127 / 15, 137 / 100, - (47 / 5)) * 0.025" by (rule near_lower [OF n]) simp
  show "snoise (127 / 15, 137 / 100, - (47 / 5)) * 0.025 < - 0.0147271" by (rule near_upper [OF n]) simp
qed

lemma sample_dark_cell_form:
  fixes vx vy :: real
  assumes "9.1710589 \<le> vx" "vx \<le> 9.1710606" "0.0821816 \<le> vy" "vy \<le> 0.0821832"
  shows "snoise (vx, vy, 0) =
    105 * (corner (gradient 137) (vx - 9, vy, 0)
      + corner (gradient 240) (vx - 59 / 6, vy + 1 / 6, 1 / 6)
      + corner (gradient 275) (vx - 29 / 3, vy - 2 / 3, 1 / 3)
      + corner (gradient 106) (vx - 19 / 2, vy - 1 / 2, - (1 / 2)))"
proof -
  have b: "91710589 / 10000000 \<le> vx" "vx \<le> 91710606 / 10000000" "821816 / 10000000 \<le> vy" "vy \<le> 821832 / 10000000"
    using assms by simp_all
  have f1: "floor_f (vx + (vx * (1 / 3) + vy * (1 / 3) + 0 * (1 / 3))) = 12"
    by (rule floor_f_numeral; use b in \<open>simp add: field_simps\<close>)
  have f2: "floor_f (vy + (vx * (1 / 3) + vy * (1 / 3) + 0 * (1 / 3))) = 3"
    by (rule floor_f_numeral; use b in \<open>simp add: field_simps\<close>)
  have f3: "floor_f (0 + (vx * (1 / 3) + vy * (1 / 3) + 0 * (1 / 3))) = 3"
    by (rule floor_f_numeral; use b in \<open>simp add: field_simps\<close>)
  have s1: "step (vy - 3 + (12 * (1 / 6) + 3 * (1 / 6) + 3 * (1 / 6))) (vx - 12 + (12 * (1 / 6) + 3 * (1 / 6) + 3 * (1 / 6))) = 1"
    using b by (simp add: step_def)
  have s2: "step (0 - 3 + (12 * (1 / 6) + 3 * (1 / 6) + 3 * (1 / 6))) (vy - 3 + (12 * (1 / 6) + 3 * (1 / 6) + 3 * (1 / 6))) = 1"
    using b by (simp add: step_def)
  have s3: "step (vx - 12 + (12 * (1 / 6) + 3 * (1 / 6) + 3 * (1 / 6))) (0 - 3 + (12 * (1 / 6) + 3 * (1 / 6) + 3 * (1 / 6))) = 0"
    using b by (simp add: step_def)
  show ?thesis
    unfolding snoise_def Let_def fst_conv snd_conv dot3.simps f1 f2 f3 s1 s2 s3
    by (simp add: permute_def mod289_def floor_f_def)
qed

lemma sample_dark_cell_bounds:
  fixes vx vy :: real
  assumes "9.1710589 \<le> vx" "vx \<le> 9.1710606" "0.0821816 \<le> vy" "vy \<le> 0.0821832"
  shows "0.8036 < snoise (vx, vy, 0)" "snoise (vx, vy, 0) < 0.804"
proof -
  have b: "91710589 / 10000000 \<le> vx" "vx \<le> 91710606 / 10000000" "821816 / 10000000 \<le> vy" "vy \<le> 821832 / 10000000"
    using assms by simp_all
  have sx0: "(1710589 / 10000000) * (1710589 / 10000000) \<le> (vx - 9) * (vx - 9)"
      "(vx - 9) * (vx - 9) \<le> (855303 / 5000000) * (855303 / 5000000)"
    by (rule sq_lower sq_upper; use b in linarith)+
  have sy0: "(102727 / 1250000) * (102727 / 1250000) \<le> (vy) * (vy)"
      "(vy) * (vy) \<le> (102729 / 1250000) * (102729 / 1250000)"
    by (rule sq_lower sq_upper; use b in linarith)+
  have m0: "4739841927 / 10000000000 \<le> 0.51 - dot3 (vx - 9, vy, 0) (vx - 9, vy, 0)"
      "0.51 - dot3 (vx - 9, vy, 0) (vx - 9, vy, 0) \<le> 2369925187 / 5000000000"
    using kernel_bounds [OF sx0 sy0 order_refl order_refl, of "0"] by simp_all
  have "1516685823 / 10000000000 \<le> dot3 (gradient 137) (a, c, 0) \<and> dot3 (gradient 137) (a, c, 0) \<le> 758351683 / 5000000000"
    if "1710589 / 10000000 \<le> a" "a \<le> 855303 / 5000000" "102727 / 1250000 \<le> c" "c \<le> 102729 / 1250000" for a c
    using that by (simp add: gradient_eval eval_let cong: let_weak_cong)
  from this [of "vx - 9" "vy"]
  have d0: "1516685823 / 10000000000 \<le> dot3 (gradient 137) (vx - 9, vy, 0)"
      "dot3 (gradient 137) (vx - 9, vy, 0) \<le> 758351683 / 5000000000"
    using b by auto
  have c0: "min ((4739841927 / 10000000000) * (4739841927 / 10000000000) * ((4739841927 / 10000000000) * (4739841927 / 10000000000)) * (1516685823 / 10000000000)) ((2369925187 / 5000000000) * (2369925187 / 5000000000) * ((2369925187 / 5000000000) * (2369925187 / 5000000000)) * (1516685823 / 10000000000)) \<le> corner (gradient 137) (vx - 9, vy, 0)"
      "corner (gradient 137) (vx - 9, vy, 0) \<le> max ((4739841927 / 10000000000) * (4739841927 / 10000000000) * ((4739841927 / 10000000000) * (4739841927 / 10000000000)) * (758351683 / 5000000000)) ((2369925187 / 5000000000) * (2369925187 / 5000000000) * ((2369925187 / 5000000000) * (2369925187 / 5000000000)) * (758351683 / 5000000000))"
    by (rule corner_bounds [OF _ m0 d0]; simp)+
  have c1: "corner (gradient 240) (vx - 59 / 6, vy + 1 / 6, 1 / 6) = 0"
  proof (rule corner_dead)
    show "(6622727333 / 10000000000) * (6622727333 / 10000000000) \<le> (vx - 59 / 6) * (vx - 59 / 6)"
      by (rule sq_lower; use b in linarith)
    show "(1244241333 / 5000000000) * (1244241333 / 5000000000) \<le> (vy + 1 / 6) * (vy + 1 / 6)"
      by (rule sq_lower; use b in linarith)
    show "(1 / 6) * (1 / 6) \<le> (1 / 6 :: real) * (1 / 6)" by simp
  qed simp
  have c2: "corner (gradient 275) (vx - 29 / 3, vy - 2 / 3, 1 / 3) = 0"
  proof (rule corner_dead)
    show "(2478030333 / 5000000000) * (2478030333 / 5000000000) \<le> (vx - 29 / 3) * (vx - 29 / 3)"
      by (rule sq_lower; use b in linarith)
    show "(2922417333 / 5000000000) * (2922417333 / 5000000000) \<le> (vy - 2 / 3) * (vy - 2 / 3)"
      by (rule sq_lower; use b in linarith)
    show "(1 / 3) * (1 / 3) \<le> (1 / 3 :: real) * (1 / 3)" by simp
  qed simp
  have c3: "corner (gradient 106) (vx - 19 / 2, vy - 1 / 2, - (1 / 2)) = 0"
  proof (rule corner_dead)
    show "(1644697 / 5000000) * (1644697 / 5000000) \<le> (vx - 19 / 2) * (vx - 19 / 2)"
      by (rule sq_lower; use b in linarith)
    show "(522271 / 1250000) * (522271 / 1250000) \<le> (vy - 1 / 2) * (vy - 1 / 2)"
      by (rule sq_lower; use b in linarith)
    show "(- (1 / 2)) * (- (1 / 2)) \<le> (- (1 / 2) :: real) * (- (1 / 2))" by simp
  qed simp
  have S: "snoise (vx, vy, 0) = 105 * (corner (gradient 137) (vx - 9, vy, 0))"
    using sample_dark_cell_form [OF assms] c1 c2 c3 by simp
  show "0.8036 < snoise (vx, vy, 0)" unfolding S using c0(1) by simp
  show "snoise (vx, vy, 0) < 0.804" unfolding S using c0(2) by simp
qed

lemma edge_main_current_x:
  "- 0.003099 < snoise (299 / 75, 64 / 25, 3) * 0.025" "snoise (299 / 75, 64 / 25, 3) * 0.025 < - 0.0030988"
proof -
  have n: "\<bar>snoise (299 / 75, 64 / 25, 3) * 0.025 - (- (30989 / 10000000))\<bar> < 1 / 10000000"
    by (simp add: noise_defs eval_let cong: let_weak_cong)
  show "- 0.003099 < snoise (299 / 75, 64 / 25, 3) * 0.025" by (rule near_lower [OF n]) simp
  show "snoise (299 / 75, 64 / 25, 3) * 0.025 < - 0.0030988" by (rule near_upper [OF n]) simp
qed

lemma edge_main_current_y:
  "- 0.0028659 < snoise (614 / 75, 93 / 50, - (47 / 5)) * 0.025" "snoise (614 / 75, 93 / 50, - (47 / 5)) * 0.025 < - 0.0028657"
proof -
  have n: "\<bar>snoise (614 / 75, 93 / 50, - (47 / 5)) * 0.025 - (- (14329 / 5000000))\<bar> < 1 / 10000000"
    by (simp add: noise_defs eval_let cong: let_weak_cong)
  show "- 0.0028659 < snoise (614 / 75, 93 / 50, - (47 / 5)) * 0.025" by (rule near_lower [OF n]) simp
  show "snoise (614 / 75, 93 / 50, - (47 / 5)) * 0.025 < - 0.0028657" by (rule near_upper [OF n]) simp
qed

lemma edge_dark_cell_form:
  fixes vx vy :: real
  assumes "8.5085413 \<le> vx" "vx \<le> 8.508543" "1.5770728 \<le> vy" "vy \<le> 1.5770744"
  shows "snoise (vx, vy, 0) =
    105 * (corner (gradient 1) (vx - 8, vy - 1, 0)
      + corner (gradient 36) (vx - 47 / 6, vy - 11 / 6, 1 / 6)
      + corner (gradient 207) (vx - 26 / 3, vy - 5 / 3, 1 / 3)
      + corner (gradient 106) (vx - 17 / 2, vy - 3 / 2, - (1 / 2)))"
proof -
  have b: "85085413 / 10000000 \<le> vx" "vx \<le> 85085430 / 10000000" "15770728 / 10000000 \<le> vy" "vy \<le> 15770744 / 10000000"
    using assms by simp_all
  have f1: "floor_f (vx + (vx * (1 / 3) + vy * (1 / 3) + 0 * (1 / 3))) = 11"
    by (rule floor_f_numeral; use b in \<open>simp add: field_simps\<close>)
  have f2: "floor_f (vy + (vx * (1 / 3) + vy * (1 / 3) + 0 * (1 / 3))) = 4"
    by (rule floor_f_numeral; use b in \<open>simp add: field_simps\<close>)
  have f3: "floor_f (0 + (vx * (1 / 3) + vy * (1 / 3) + 0 * (1 / 3))) = 3"
    by (rule floor_f_numeral; use b in \<open>simp add: field_simps\<close>)
  have s1: "step (vy - 4 + (11 * (1 / 6) + 4 * (1 / 6) + 3 * (1 / 6))) (vx - 11 + (11 * (1 / 6) + 4 * (1 / 6) + 3 * (1 / 6))) = 0"
    using b by (simp add: step_def)
  have s2: "step (0 - 3 + (11 * (1 / 6) + 4 * (1 / 6) + 3 * (1 / 6))) (vy - 4 + (11 * (1 / 6) + 4 * (1 / 6) + 3 * (1 / 6))) = 1"
    using b by (simp add: step_def)
  have s3: "step (vx - 11 + (11 * (1 / 6) + 4 * (1 / 6) + 3 * (1 / 6))) (0 - 3 + (11 * (1 / 6) + 4 * (1 / 6) + 3 * (1 / 6))) = 0"
    using b by (simp add: step_def)
  show ?thesis
    unfolding snoise_def Let_def fst_conv snd_conv dot3.simps f1 f2 f3 s1 s2 s3
    by (simp add: permute_def mod289_def floor_f_def)
qed

lemma edge_dark_cell_bounds:
  fixes vx vy :: real
  assumes "8.5085413 \<le> vx" "vx \<le> 8.508543" "1.5770728 \<le> vy" "vy \<le> 1.5770744"
  shows "0.4524 < snoise (vx, vy, 0)" "snoise (vx, vy, 0) < 0.4527"
proof -
  have b: "85085413 / 10000000 \<le> vx" "vx \<le> 85085430 / 10000000" "15770728 / 10000000 \<le> vy" "vy \<le> 15770744 / 10000000"
    using assms by simp_all
  have c0: "corner (gradient 1) (vx - 8, vy - 1, 0) = 0"
  proof (rule corner_dead)
    show "(5085413 / 10000000) * (5085413 / 10000000) \<le> (vx - 8) * (vx - 8)"
      by (rule sq_lower; use b in linarith)
    show "(721341 / 1250000) * (721341 / 1250000) \<le> (vy - 1) * (vy - 1)"
      by (rule sq_lower; use b in linarith)
    show "0 * 0 \<le> (0 :: real) * 0" by simp
  qed simp
  have c1: "corner (gradient 36) (vx - 47 / 6, vy - 11 / 6, 1 / 6) = 0"
  proof (rule corner_dead)
    show "(3376039833 / 5000000000) * (3376039833 / 5000000000) \<le> (vx - 47 / 6) * (vx - 47 / 6)"
      by (rule sq_lower; use b in linarith)
    show "(2562589333 / 10000000000) * (2562589333 / 10000000000) \<le> (vy - 11 / 6) * (vy - 11 / 6)"
      by (rule sq_lower; use b in linarith)
    show "(1 / 6) * (1 / 6) \<le> (1 / 6 :: real) * (1 / 6)" by simp
  qed simp
  have sx2: "(790618333 / 5000000000) * (790618333 / 5000000000) \<le> (vx - 26 / 3) * (vx - 26 / 3)"
      "(vx - 26 / 3) * (vx - 26 / 3) \<le> (1581253667 / 10000000000) * (1581253667 / 10000000000)"
    by (rule sq_lower sq_upper; use b in linarith)+
  have sy2: "(447961333 / 5000000000) * (447961333 / 5000000000) \<le> (vy - 5 / 3) * (vy - 5 / 3)"
      "(vy - 5 / 3) * (vy - 5 / 3) \<le> (895938667 / 10000000000) * (895938667 / 10000000000)"
    by (rule sq_lower sq_upper; use b in linarith)+
  have m2: "3658581963 / 10000000000 \<le> 0.51 - dot3 (vx - 26 / 3, vy - 5 / 3, 1 / 3) (vx - 26 / 3, vy - 5 / 3, 1 / 3)"
      "0.51 - dot3 (vx - 26 / 3, vy - 5 / 3, 1 / 3) (vx - 26 / 3, vy - 5 / 3, 1 / 3) \<le> 3572842 / 9765625"
    using kernel_bounds [OF sx2 sy2 order_refl order_refl, of "1 / 3"] by simp_all
  have "359880857 / 2000000000 \<le> dot3 (gradient 207) (a, c, 1 / 3) \<and> dot3 (gradient 207) (a, c, 1 / 3) \<le> 1799424149 / 10000000000"
    if "- (1581253667 / 10000000000) \<le> a" "a \<le> - (790618333 / 5000000000)" "- (895938667 / 10000000000) \<le> c" "c \<le> - (447961333 / 5000000000)" for a c
    using that by (simp add: gradient_eval eval_let cong: let_weak_cong)
  from this [of "vx - 26 / 3" "vy - 5 / 3"]
  have d2: "359880857 / 2000000000 \<le> dot3 (gradient 207) (vx - 26 / 3, vy - 5 / 3, 1 / 3)"
      "dot3 (gradient 207) (vx - 26 / 3, vy - 5 / 3, 1 / 3) \<le> 1799424149 / 10000000000"
    using b by auto
  have c2: "min ((3658581963 / 10000000000) * (3658581963 / 10000000000) * ((3658581963 / 10000000000) * (3658581963 / 10000000000)) * (359880857 / 2000000000)) ((3572842 / 9765625) * (3572842 / 9765625) * ((3572842 / 9765625) * (3572842 / 9765625)) * (359880857 / 2000000000)) \<le> corner (gradient 207) (vx - 26 / 3, vy - 5 / 3, 1 / 3)"
      "corner (gradient 207) (vx - 26 / 3, vy - 5 / 3, 1 / 3) \<le> max ((3658581963 / 10000000000) * (3658581963 / 10000000000) * ((3658581963 / 10000000000) * (3658581963 / 10000000000)) * (1799424149 / 10000000000)) ((3572842 / 9765625) * (3572842 / 9765625) * ((3572842 / 9765625) * (3572842 / 9765625)) * (1799424149 / 10000000000))"
    by (rule corner_bounds [OF _ m2 d2]; simp)+
  have sx3: "(85413 / 10000000) * (85413 / 10000000) \<le> (vx - 17 / 2) * (vx - 17 / 2)"
      "(vx - 17 / 2) * (vx - 17 / 2) \<le> (8543 / 1000000) * (8543 / 1000000)"
    by (rule sq_lower sq_upper; use b in linarith)+
  have sy3: "(96341 / 1250000) * (96341 / 1250000) \<le> (vy - 3 / 2) * (vy - 3 / 2)"
      "(vy - 3 / 2) * (vy - 3 / 2) \<le> (96343 / 1250000) * (96343 / 1250000)"
    by (rule sq_lower sq_upper; use b in linarith)+
  have m3: "126993277 / 500000000 \<le> 0.51 - dot3 (vx - 17 / 2, vy - 3 / 2, - (1 / 2)) (vx - 17 / 2, vy - 3 / 2, - (1 / 2))"
      "0.51 - dot3 (vx - 17 / 2, vy - 3 / 2, - (1 / 2)) (vx - 17 / 2, vy - 3 / 2, - (1 / 2)) \<le> 2539868297 / 10000000000"
    using kernel_bounds [OF sx3 sy3 order_refl order_refl, of "- (1 / 2)"] by simp_all
  have "2610801333 / 10000000000 \<le> dot3 (gradient 106) (a, c, - (1 / 2)) \<and> dot3 (gradient 106) (a, c, - (1 / 2)) \<le> 652704769 / 2500000000"
    if "85413 / 10000000 \<le> a" "a \<le> 8543 / 1000000" "96341 / 1250000 \<le> c" "c \<le> 96343 / 1250000" for a c
    using that by (simp add: gradient_eval eval_let cong: let_weak_cong)
  from this [of "vx - 17 / 2" "vy - 3 / 2"]
  have d3: "2610801333 / 10000000000 \<le> dot3 (gradient 106) (vx - 17 / 2, vy - 3 / 2, - (1 / 2))"
      "dot3 (gradient 106) (vx - 17 / 2, vy - 3 / 2, - (1 / 2)) \<le> 652704769 / 2500000000"
    using b by auto
  have c3: "min ((126993277 / 500000000) * (126993277 / 500000000) * ((126993277 / 500000000) * (126993277 / 500000000)) * (2610801333 / 10000000000)) ((2539868297 / 10000000000) * (2539868297 / 10000000000) * ((2539868297 / 10000000000) * (2539868297 / 10000000000)) * (2610801333 / 10000000000)) \<le> corner (gradient 106) (vx - 17 / 2, vy - 3 / 2, - (1 / 2))"
      "corner (gradient 106) (vx - 17 / 2, vy - 3 / 2, - (1 / 2)) \<le> max ((126993277 / 500000000) * (126993277 / 500000000) * ((126993277 / 500000000) * (126993277 / 500000000)) * (652704769 / 2500000000)) ((2539868297 / 10000000000) * (2539868297 / 10000000000) * ((2539868297 / 10000000000) * (2539868297 / 10000000000)) * (652704769 / 2500000000))"
    by (rule corner_bounds [OF _ m3 d3]; simp)+
  have S: "snoise (vx, vy, 0) = 105 * (corner (gradient 207) (vx - 26 / 3, vy - 5 / 3, 1 / 3) + corner (gradient 106) (vx - 17 / 2, vy - 3 / 2, - (1 / 2)))"
    using edge_dark_cell_form [OF assms] c0 c1 by simp
  show "0.4524 < snoise (vx, vy, 0)" unfolding S using c2(1) c3(1) by simp
  show "snoise (vx, vy, 0) < 0.4527" unfolding S using c2(2) c3(2) by simp
qed

lemma edge_foam_current_x:
  "- 0.000078 < snoise (787 / 150, 197 / 50, 123 / 10) * 0.002" "snoise (787 / 150, 197 / 50, 123 / 10) * 0.002 < - 0.0000778"
proof -
  have n: "\<bar>snoise (787 / 150, 197 / 50, 123 / 10) * 0.002 - (- (779 / 10000000))\<bar> < 1 / 10000000"
    by (simp add: noise_defs eval_let cong: let_weak_cong)
  show "- 0.000078 < snoise (787 / 150, 197 / 50, 123 / 10) * 0.002" by (rule near_lower [OF n]) simp
  show "snoise (787 / 150, 197 / 50, 123 / 10) * 0.002 < - 0.0000778" by (rule near_upper [OF n]) simp
qed

lemma edge_foam_current_y:
  "0.0006793 < snoise (2437 / 150, - (404 / 25), - (17 / 10)) * 0.002" "snoise (2437 / 150, - (404 / 25), - (17 / 10)) * 0.002 < 0.0006795"
proof -
  have n: "\<bar>snoise (2437 / 150, - (404 / 25), - (17 / 10)) * 0.002 - 3397 / 5000000\<bar> < 1 / 10000000"
    by (simp add: noise_defs eval_let cong: let_weak_cong)
  show "0.0006793 < snoise (2437 / 150, - (404 / 25), - (17 / 10)) * 0.002" by (rule near_lower [OF n]) simp
  show "snoise (2437 / 150, - (404 / 25), - (17 / 10)) * 0.002 < 0.0006795" by (rule near_upper [OF n]) simp
qed

lemma edge_foam_cell_form:
  fixes vx vy :: real
  assumes "12.799064 \<le> vx" "vx \<le> 12.7990664" "2.4081516 \<le> vy" "vy \<le> 2.408154"
  shows "snoise (vx, vy, 0) =
    105 * (corner (gradient 267) (vx - 73 / 6, vy - 13 / 6, - (1 / 6))
      + corner (gradient 251) (vx - 13, vy - 2, 0)
      + corner (gradient 286) (vx - 77 / 6, vy - 17 / 6, 1 / 6)
      + corner (gradient 253) (vx - 38 / 3, vy - 8 / 3, - (2 / 3)))"
proof -
  have b: "127990640 / 10000000 \<le> vx" "vx \<le> 127990664 / 10000000" "24081516 / 10000000 \<le> vy" "vy \<le> 24081540 / 10000000"
    using assms by simp_all
  have f1: "floor_f (vx + (vx * (1 / 3) + vy * (1 / 3) + 0 * (1 / 3))) = 17"
    by (rule floor_f_numeral; use b in \<open>simp add: field_simps\<close>)
  have f2: "floor_f (vy + (vx * (1 / 3) + vy * (1 / 3) + 0 * (1 / 3))) = 7"
    by (rule floor_f_numeral; use b in \<open>simp add: field_simps\<close>)
  have f3: "floor_f (0 + (vx * (1 / 3) + vy * (1 / 3) + 0 * (1 / 3))) = 5"
    by (rule floor_f_numeral; use b in \<open>simp add: field_simps\<close>)
  have s1: "step (vy - 7 + (17 * (1 / 6) + 7 * (1 / 6) + 5 * (1 / 6))) (vx - 17 + (17 * (1 / 6) + 7 * (1 / 6) + 5 * (1 / 6))) = 1"
    using b by (simp add: step_def)
  have s2: "step (0 - 5 + (17 * (1 / 6) + 7 * (1 / 6) + 5 * (1 / 6))) (vy - 7 + (17 * (1 / 6) + 7 * (1 / 6) + 5 * (1 / 6))) = 1"
    using b by (simp add: step_def)
  have s3: "step (vx - 17 + (17 * (1 / 6) + 7 * (1 / 6) + 5 * (1 / 6))) (0 - 5 + (17 * (1 / 6) + 7 * (1 / 6) + 5 * (1 / 6))) = 0"
    using b by (simp add: step_def)
  show ?thesis
    unfolding snoise_def Let_def fst_conv snd_conv dot3.simps f1 f2 f3 s1 s2 s3
    by (simp add: permute_def mod289_def floor_f_def)
qed

lemma edge_foam_cell_bounds:
  fixes vx vy :: real
  assumes "12.799064 \<le> vx" "vx \<le> 12.7990664" "2.4081516 \<le> vy" "vy \<le> 2.408154"
  shows "- 0.0425 < snoise (vx, vy, 0)" "snoise (vx, vy, 0) < - 0.0422"
proof -
  have b: "127990640 / 10000000 \<le> vx" "vx \<le> 127990664 / 10000000" "24081516 / 10000000 \<le> vy" "vy \<le> 24081540 / 10000000"
    using assms by simp_all
  have sx0: "(6323973333 / 10000000000) * (6323973333 / 10000000000) \<le> (vx - 73 / 6) * (vx - 73 / 6)"
      "(vx - 73 / 6) * (vx - 73 / 6) \<le> (3161998667 / 5000000000) * (3161998667 / 5000000000)"
    by (rule sq_lower sq_upper; use b in linarith)+
  have sy0: "(2414849333 / 10000000000) * (2414849333 / 10000000000) \<le> (vy - 13 / 6) * (vy - 13 / 6)"
      "(vy - 13 / 6) * (vy - 13 / 6) \<le> (1207436667 / 5000000000) * (1207436667 / 5000000000)"
    by (rule sq_lower sq_upper; use b in linarith)+
  have m0: "14985417 / 625000000 \<le> 0.51 - dot3 (vx - 73 / 6, vy - 13 / 6, - (1 / 6)) (vx - 73 / 6, vy - 13 / 6, - (1 / 6))"
      "0.51 - dot3 (vx - 73 / 6, vy - 13 / 6, - (1 / 6)) (vx - 73 / 6, vy - 13 / 6, - (1 / 6)) \<le> 239808621 / 10000000000"
    using kernel_bounds [OF sx0 sy0 order_refl order_refl, of "- (1 / 6)"] by simp_all
  have "- (677612097 / 2000000000) \<le> dot3 (gradient 267) (a, c, - (1 / 6)) \<and> dot3 (gradient 267) (a, c, - (1 / 6)) \<le> - (3388037067 / 10000000000)"
    if "6323973333 / 10000000000 \<le> a" "a \<le> 3161998667 / 5000000000" "2414849333 / 10000000000 \<le> c" "c \<le> 1207436667 / 5000000000" for a c
    using that by (simp add: gradient_eval eval_let cong: let_weak_cong)
  from this [of "vx - 73 / 6" "vy - 13 / 6"]
  have d0: "- (677612097 / 2000000000) \<le> dot3 (gradient 267) (vx - 73 / 6, vy - 13 / 6, - (1 / 6))"
      "dot3 (gradient 267) (vx - 73 / 6, vy - 13 / 6, - (1 / 6)) \<le> - (3388037067 / 10000000000)"
    using b by auto
  have c0: "min ((14985417 / 625000000) * (14985417 / 625000000) * ((14985417 / 625000000) * (14985417 / 625000000)) * (- (677612097 / 2000000000))) ((239808621 / 10000000000) * (239808621 / 10000000000) * ((239808621 / 10000000000) * (239808621 / 10000000000)) * (- (677612097 / 2000000000))) \<le> corner (gradient 267) (vx - 73 / 6, vy - 13 / 6, - (1 / 6))"
      "corner (gradient 267) (vx - 73 / 6, vy - 13 / 6, - (1 / 6)) \<le> max ((14985417 / 625000000) * (14985417 / 625000000) * ((14985417 / 625000000) * (14985417 / 625000000)) * (- (3388037067 / 10000000000))) ((239808621 / 10000000000) * (239808621 / 10000000000) * ((239808621 / 10000000000) * (239808621 / 10000000000)) * (- (3388037067 / 10000000000)))"
    by (rule corner_bounds [OF _ m0 d0]; simp)+
  have sx1: "(251167 / 1250000) * (251167 / 1250000) \<le> (vx - 13) * (vx - 13)"
      "(vx - 13) * (vx - 13) \<le> (25117 / 125000) * (25117 / 125000)"
    by (rule sq_lower sq_upper; use b in linarith)+
  have sy1: "(1020379 / 2500000) * (1020379 / 2500000) \<le> (vy - 2) * (vy - 2)"
      "(vy - 2) * (vy - 2) \<le> (204077 / 500000) * (204077 / 500000)"
    by (rule sq_lower sq_upper; use b in linarith)+
  have m1: "3030350361 / 10000000000 \<le> 0.51 - dot3 (vx - 13, vy - 2, 0) (vx - 13, vy - 2, 0)"
      "0.51 - dot3 (vx - 13, vy - 2, 0) (vx - 13, vy - 2, 0) \<le> 3030379599 / 10000000000"
    using kernel_bounds [OF sx1 sy1 order_refl order_refl, of "0"] by simp_all
  have "- (1337538101 / 10000000000) \<le> dot3 (gradient 251) (a, c, 0) \<and> dot3 (gradient 251) (a, c, 0) \<le> - (334382273 / 2500000000)"
    if "- (25117 / 125000) \<le> a" "a \<le> - (251167 / 1250000)" "1020379 / 2500000 \<le> c" "c \<le> 204077 / 500000" for a c
    using that by (simp add: gradient_eval eval_let cong: let_weak_cong)
  from this [of "vx - 13" "vy - 2"]
  have d1: "- (1337538101 / 10000000000) \<le> dot3 (gradient 251) (vx - 13, vy - 2, 0)"
      "dot3 (gradient 251) (vx - 13, vy - 2, 0) \<le> - (334382273 / 2500000000)"
    using b by auto
  have c1: "min ((3030350361 / 10000000000) * (3030350361 / 10000000000) * ((3030350361 / 10000000000) * (3030350361 / 10000000000)) * (- (1337538101 / 10000000000))) ((3030379599 / 10000000000) * (3030379599 / 10000000000) * ((3030379599 / 10000000000) * (3030379599 / 10000000000)) * (- (1337538101 / 10000000000))) \<le> corner (gradient 251) (vx - 13, vy - 2, 0)"
      "corner (gradient 251) (vx - 13, vy - 2, 0) \<le> max ((3030350361 / 10000000000) * (3030350361 / 10000000000) * ((3030350361 / 10000000000) * (3030350361 / 10000000000)) * (- (334382273 / 2500000000))) ((3030379599 / 10000000000) * (3030379599 / 10000000000) * ((3030379599 / 10000000000) * (3030379599 / 10000000000)) * (- (334382273 / 2500000000)))"
    by (rule corner_bounds [OF _ m1 d1]; simp)+
  have sx2: "(342669333 / 10000000000) * (342669333 / 10000000000) \<le> (vx - 77 / 6) * (vx - 77 / 6)"
      "(vx - 77 / 6) * (vx - 77 / 6) \<le> (171346667 / 5000000000) * (171346667 / 5000000000)"
    by (rule sq_lower sq_upper; use b in linarith)+
  have sy2: "(4251793333 / 10000000000) * (4251793333 / 10000000000) \<le> (vy - 17 / 6) * (vy - 17 / 6)"
      "(vy - 17 / 6) * (vy - 17 / 6) \<le> (2125908667 / 5000000000) * (2125908667 / 5000000000)"
    by (rule sq_lower sq_upper; use b in linarith)+
  have m2: "600536657 / 2000000000 \<le> 0.51 - dot3 (vx - 77 / 6, vy - 17 / 6, 1 / 6) (vx - 77 / 6, vy - 17 / 6, 1 / 6)"
      "0.51 - dot3 (vx - 77 / 6, vy - 17 / 6, 1 / 6) (vx - 77 / 6, vy - 17 / 6, 1 / 6) \<le> 3002705341 / 10000000000"
    using kernel_bounds [OF sx2 sy2 order_refl order_refl, of "1 / 6"] by simp_all
  have "445743943 / 5000000000 \<le> dot3 (gradient 286) (a, c, 1 / 6) \<and> dot3 (gradient 286) (a, c, 1 / 6) \<le> 891513097 / 10000000000"
    if "- (171346667 / 5000000000) \<le> a" "a \<le> - (342669333 / 10000000000)" "- (2125908667 / 5000000000) \<le> c" "c \<le> - (4251793333 / 10000000000)" for a c
    using that by (simp add: gradient_eval eval_let cong: let_weak_cong)
  from this [of "vx - 77 / 6" "vy - 17 / 6"]
  have d2: "445743943 / 5000000000 \<le> dot3 (gradient 286) (vx - 77 / 6, vy - 17 / 6, 1 / 6)"
      "dot3 (gradient 286) (vx - 77 / 6, vy - 17 / 6, 1 / 6) \<le> 891513097 / 10000000000"
    using b by auto
  have c2: "min ((600536657 / 2000000000) * (600536657 / 2000000000) * ((600536657 / 2000000000) * (600536657 / 2000000000)) * (445743943 / 5000000000)) ((3002705341 / 10000000000) * (3002705341 / 10000000000) * ((3002705341 / 10000000000) * (3002705341 / 10000000000)) * (445743943 / 5000000000)) \<le> corner (gradient 286) (vx - 77 / 6, vy - 17 / 6, 1 / 6)"
      "corner (gradient 286) (vx - 77 / 6, vy - 17 / 6, 1 / 6) \<le> max ((600536657 / 2000000000) * (600536657 / 2000000000) * ((600536657 / 2000000000) * (600536657 / 2000000000)) * (891513097 / 10000000000)) ((3002705341 / 10000000000) * (3002705341 / 10000000000) * ((3002705341 / 10000000000) * (3002705341 / 10000000000)) * (891513097 / 10000000000))"
    by (rule corner_bounds [OF _ m2 d2]; simp)+
  have c3: "corner (gradient 253) (vx - 38 / 3, vy - 8 / 3, - (2 / 3)) = 0"
  proof (rule corner_dead)
    show "(1323973333 / 10000000000) * (1323973333 / 10000000000) \<le> (vx - 38 / 3) * (vx - 38 / 3)"
      by (rule sq_lower; use b in linarith)
    show "(1292563333 / 5000000000) * (1292563333 / 5000000000) \<le> (vy - 8 / 3) * (vy - 8 / 3)"
      by (rule sq_lower; use b in linarith)
    show "(- (2 / 3)) * (- (2 / 3)) \<le> (- (2 / 3) :: real) * (- (2 / 3))" by simp
  qed simp
  have S: "snoise (vx, vy, 0) = 105 * (corner (gradient 267) (vx - 73 / 6, vy - 13 / 6, - (1 / 6)) + corner (gradient 251) (vx - 13, vy - 2, 0) + corner (gradient 286) (vx - 77 / 6, vy - 17 / 6, 1 / 6))"
    using edge_foam_cell_form [OF assms] c3 by simp
  show "- 0.0425 < snoise (vx, vy, 0)" unfolding S using c0(1) c1(1) c2(1) by simp
  show "snoise (vx, vy, 0) < - 0.0422" unfolding S using c0(2) c1(2) c2(2) by simp
qed





lemma sample_breakup_noise:
  "0.098121 < snoise (7 / 4, 3 / 80, 0)" "snoise (7 / 4, 3 / 80, 0) < 0.098123"
proof -
  have n: "\<bar>snoise (7 / 4, 3 / 80, 0) - 49061 / 500000\<bar> < 1 / 1000000"
    by (simp add: noise_defs eval_let cong: let_weak_cong)
  show "0.098121 < snoise (7 / 4, 3 / 80, 0)" by (rule near_lower [OF n]) simp
  show "snoise (7 / 4, 3 / 80, 0) < 0.098123" by (rule near_upper [OF n]) simp
qed

lemma edge_breakup_noise:
  "0.272086 < snoise (8 / 5, 3 / 10, 0)" "snoise (8 / 5, 3 / 10, 0) < 0.272088"
proof -
  have n: "\<bar>snoise (8 / 5, 3 / 10, 0) - 272087 / 1000000\<bar> < 1 / 1000000"
    by (simp add: noise_defs eval_let cong: let_weak_cong)
  show "0.272086 < snoise (8 / 5, 3 / 10, 0)" by (rule near_lower [OF n]) simp
  show "snoise (8 / 5, 3 / 10, 0) < 0.272088" by (rule near_upper [OF n]) simp
qed


lemma sample_radial_mask_noise:
  "- 0.048119 < snoise (21 / 10, 9 / 200, 0)" "snoise (21 / 10, 9 / 200, 0) < - 0.048117"
proof -
  have n: "\<bar>snoise (21 / 10, 9 / 200, 0) - (- (24059 / 500000))\<bar> < 1 / 1000000"
    by (simp add: noise_defs eval_let cong: let_weak_cong)
  show "- 0.048119 < snoise (21 / 10, 9 / 200, 0)" by (rule near_lower [OF n]) simp
  show "snoise (21 / 10, 9 / 200, 0) < - 0.048117" by (rule near_upper [OF n]) simp
qed


lemma sample_edge_noise:
  "- 0.043725 < snoise (253 / 10, - (31 / 20), 291 / 10) * 0.1" "snoise (253 / 10, - (31 / 20), 291 / 10) * 0.1 < - 0.043723"
proof -
  have n: "\<bar>snoise (253 / 10, - (31 / 20), 291 / 10) * 0.1 - (- (10931 / 250000))\<bar> < 1 / 1000000"
    by (simp add: noise_defs eval_let cong: let_weak_cong)
  show "- 0.043725 < snoise (253 / 10, - (31 / 20), 291 / 10) * 0.1" by (rule near_lower [OF n]) simp
  show "snoise (253 / 10, - (31 / 20), 291 / 10) * 0.1 < - 0.043723" by (rule near_upper [OF n]) simp
qed

lemma edge_edge_noise:
  "0.007168 < snoise (253 / 10, - (209 / 40), 291 / 10) * 0.1" "snoise (253 / 10, - (209 / 40), 291 / 10) * 0.1 < 0.00717"
proof -
  have n: "\<bar>snoise (253 / 10, - (209 / 40), 291 / 10) * 0.1 - 7169 / 1000000\<bar> < 1 / 1000000"
    by (simp add: noise_defs eval_let cong: let_weak_cong)
  show "0.007168 < snoise (253 / 10, - (209 / 40), 291 / 10) * 0.1" by (rule near_lower [OF n]) simp
  show "snoise (253 / 10, - (209 / 40), 291 / 10) * 0.1 < 0.00717" by (rule near_upper [OF n]) simp
qed

text \<open>
  A point where the corner that contributes most has the hashed index \<open>j = 7\<close>, and another
  one the index \<open>j = 21\<close>, for which \<open>h\<close> is \<open>7 * n_ - 1\<close>.
\<close>

lemma snoise_tie_corners:
  "0.2821 < snoise (10, 74 / 5, - (11 / 10))" "snoise (10, 74 / 5, - (11 / 10)) < 0.2823"
proof -
  have n: "\<bar>snoise (10, 74 / 5, - (11 / 10)) - 1411 / 5000\<bar> < 1 / 10000"
    by (simp add: noise_defs eval_let cong: let_weak_cong)
  show "0.2821 < snoise (10, 74 / 5, - (11 / 10))" by (rule near_lower [OF n]) simp
  show "snoise (10, 74 / 5, - (11 / 10)) < 0.2823" by (rule near_upper [OF n]) simp
qed

subsection \<open>The smoothstep polynomial\<close>

lemma smoothstep_poly_strict_mono:
  fixes a b :: real
  assumes "0 \<le> a" "a < b" "b \<le> 1"
  shows "hermite a < hermite b"
proof -
  have ab: "a * b \<le> a" "a * a \<le> a" "b * b \<le> b"
    using assms by (simp_all add: mult_left_le mult_left_le_one_le mult_right_le_one_le)
  have "a * b < b"
  proof (cases "a = 0")
    case True
    then show ?thesis using assms by simp
  next
    case False
    then have "0 < a" "a < 1" using assms by auto
    moreover have "0 < b" using assms by linarith
    ultimately show ?thesis by simp
  qed
  then have "0 < 3 * (a + b) - 2 * (a * a + a * b + b * b)" using ab by (simp add: algebra_simps)
  then have "0 < (b - a) * (3 * (a + b) - 2 * (a * a + a * b + b * b))"
    using assms by (intro mult_pos_pos) auto
  moreover have "(b - a) * (3 * (a + b) - 2 * (a * a + a * b + b * b)) = hermite b - hermite a"
    by (simp add: algebra_simps)
  ultimately show ?thesis by linarith
qed

lemma smoothstep_poly_interior:
  fixes t :: real
  assumes "0 < t" "t < 1"
  shows "0 < hermite t" "hermite t < 1"
  using smoothstep_poly_strict_mono [of 0 t] smoothstep_poly_strict_mono [of t 1] assms by auto

lemma smoothstep_inside:
  assumes "e0 < e1" "e0 \<le> x" "x \<le> e1"
  shows "smoothstep e0 e1 x = Some (hermite ((x - e0) / (e1 - e0)))"
proof -
  have "0 \<le> (x - e0) / (e1 - e0)" "(x - e0) / (e1 - e0) \<le> 1" using assms by auto
  then have "clamp ((x - e0) / (e1 - e0)) 0 1 = (x - e0) / (e1 - e0)" by (simp add: clamp_def)
  then show ?thesis using assms by (simp add: smoothstep_def Let_def)
qed

lemma smoothstep_above:
  assumes "e0 < e1" "e1 \<le> x"
  shows "smoothstep e0 e1 x = Some 1"
proof -
  have "1 \<le> (x - e0) / (e1 - e0)" using assms by simp
  then have "clamp ((x - e0) / (e1 - e0)) 0 1 = 1" by (simp add: clamp_def)
  then show ?thesis using assms by (simp add: smoothstep_def Let_def)
qed

lemma smoothstep_below:
  assumes "e0 < e1" "x \<le> e0"
  shows "smoothstep e0 e1 x = Some 0"
proof -
  have "(x - e0) / (e1 - e0) \<le> 0" using assms by (simp add: divide_le_0_iff)
  then have "clamp ((x - e0) / (e1 - e0)) 0 1 = 0" by (simp add: clamp_def)
  then show ?thesis using assms by (simp add: smoothstep_def Let_def)
qed

lemma smoothstep_falling_beyond:
  assumes "e1 < e0" "e0 \<le> x"
  shows "smoothstep e0 e1 x = Some 0"
proof -
  have "(x - e0) / (e1 - e0) \<le> 0" using assms by (simp add: divide_le_0_iff)
  then have "clamp ((x - e0) / (e1 - e0)) 0 1 = 0" by (simp add: clamp_def)
  then show ?thesis using assms by (simp add: smoothstep_def Let_def)
qed

lemma hermite_lipschitz:
  fixes a b :: real
  assumes "a \<le> b"
  shows "hermite b - hermite a \<le> 3 / 2 * (b - a)"
proof -
  have "3 / 2 - (3 * (a + b) - 2 * (a * a + a * b + b * b))
      = 3 / 2 * ((a + b - 1) * (a + b - 1)) + 1 / 2 * ((a - b) * (a - b))"
    by (simp add: algebra_simps)
  moreover have "0 \<le> 3 / 2 * ((a + b - 1) * (a + b - 1)) + 1 / 2 * ((a - b) * (a - b))"
    by simp
  ultimately have k: "3 * (a + b) - 2 * (a * a + a * b + b * b) \<le> 3 / 2" by linarith
  have "hermite b - hermite a = (b - a) * (3 * (a + b) - 2 * (a * a + a * b + b * b))"
    by (simp add: algebra_simps)
  also have "\<dots> \<le> (b - a) * (3 / 2)" using k assms by (intro mult_left_mono) auto
  finally show ?thesis by simp
qed


lemma clamp_diff: "x \<le> y \<Longrightarrow> clamp y 0 1 - clamp x 0 1 \<le> y - x"
  by (auto simp: clamp_def min_def max_def)

subsection \<open>The antialiased line and band\<close>

lemma calculate_line_intensity_nonneg:
  "calculate_line_intensity w n th sh = Some li \<Longrightarrow> 0 \<le> li"
  using clamp_unit by (auto simp: calculate_line_intensity_def Let_def bind_eq_Some_conv)

lemma calculate_band_intensity_nonneg:
  "calculate_band_intensity w n bs be sh = Some b \<Longrightarrow> 0 \<le> b"
  using clamp_unit by (auto simp: calculate_band_intensity_def Let_def bind_eq_Some_conv)

text \<open>
  Where the noise value is at least \<open>fw = fwidth * sharpness\<close> away from the threshold, the
  line is fully on or fully off, whatever the value of \<open>fwidth\<close>.
\<close>

lemma line_intensity_outside:
  assumes "0 < w * sh" "w * sh \<le> \<bar>n - th\<bar>"
  shows "calculate_line_intensity w n th sh = Some (if n < th then 1 else 0)"
proof (cases "n < th")
  case True
  then have "n \<le> th - w * sh" using assms(2) by linarith
  moreover have "th - w * sh < th + w * sh" using assms(1) by linarith
  ultimately have "smoothstep (th - w * sh) (th + w * sh) n = Some 0"
    by (intro smoothstep_below)
  then show ?thesis using True by (simp add: calculate_line_intensity_def Let_def clamp_def)
next
  case False
  then have "th + w * sh \<le> n" using assms(2) by linarith
  moreover have "th - w * sh < th + w * sh" using assms(1) by linarith
  ultimately have "smoothstep (th - w * sh) (th + w * sh) n = Some 1"
    by (intro smoothstep_above)
  then show ?thesis using False by (simp add: calculate_line_intensity_def Let_def clamp_def)
qed

text \<open>The same for the band, below its start and above its end.\<close>

lemma band_intensity_outside:
  assumes "0 < w * sh" "bs \<le> be" "n + w * sh \<le> bs \<or> be + w * sh \<le> n"
  shows "calculate_band_intensity w n bs be sh = Some 0"
proof -
  have e: "bs - w * sh < bs + w * sh" "be - w * sh < be + w * sh" using assms(1) by linarith+
  from assms(3) show ?thesis
  proof
    assume "n + w * sh \<le> bs"
    then have "n \<le> bs - w * sh" "n \<le> be - w * sh" using assms(2) by linarith+
    then have "smoothstep (bs - w * sh) (bs + w * sh) n = Some 0"
        "smoothstep (be - w * sh) (be + w * sh) n = Some 0"
      using e by (auto intro: smoothstep_below)
    then show ?thesis by (simp add: calculate_band_intensity_def Let_def clamp_def)
  next
    assume "be + w * sh \<le> n"
    then have "bs + w * sh \<le> n" "be + w * sh \<le> n" using assms(2) by linarith+
    then have "smoothstep (bs - w * sh) (bs + w * sh) n = Some 1"
        "smoothstep (be - w * sh) (be + w * sh) n = Some 1"
      using e by (auto intro: smoothstep_above)
    then show ?thesis by (simp add: calculate_band_intensity_def Let_def clamp_def)
  qed
qed

text \<open>
  The band between two thresholds that are closer than \<open>fw\<close> is faint: its intensity is at
  most \<open>3 / 2 * (bandEnd - bandStart) / (2 * fw)\<close>, whatever the noise value.
\<close>

lemma band_intensity_upper:
  assumes "0 < w * sh" "bs \<le> be" "calculate_band_intensity w n bs be sh = Some b"
  shows "b \<le> 3 / 2 * ((be - bs) / (2 * (w * sh)))"
proof -
  define fw where "fw = w * sh"
  define t1 where "t1 = (n - (bs - fw)) / (bs + fw - (bs - fw))"
  define t2 where "t2 = (n - (be - fw)) / (be + fw - (be - fw))"
  define c1 where "c1 = clamp t1 0 1"
  define c2 where "c2 = clamp t2 0 1"
  have fw: "0 < fw" using assms(1) by (simp add: fw_def)
  have b: "b = clamp (hermite c1 - hermite c2) 0 1"
    using assms(3) fw
    by (auto simp: calculate_band_intensity_def smoothstep_def Let_def fw_def t1_def t2_def
        c1_def c2_def bind_eq_Some_conv split: if_splits)
  have t1: "t1 = (n - bs + fw) / (2 * fw)" by (simp add: t1_def)
  have t2: "t2 = (n - be + fw) / (2 * fw)" by (simp add: t2_def)
  have d: "t1 - t2 = (be - bs) / (2 * fw)" unfolding t1 t2 by (simp add: diff_divide_distrib [symmetric])
  have "0 \<le> (be - bs) / (2 * fw)" using assms(2) fw by simp
  with d have le: "t2 \<le> t1" by linarith
  have c: "c2 \<le> c1" "c1 - c2 \<le> t1 - t2"
    unfolding c1_def c2_def using le by (auto intro: clamp_mono clamp_diff)
  have "hermite c1 - hermite c2 \<le> 3 / 2 * (c1 - c2)" using c(1) by (rule hermite_lipschitz)
  also have "\<dots> \<le> 3 / 2 * (t1 - t2)" using c(2) by simp
  finally have h: "hermite c1 - hermite c2 \<le> 3 / 2 * ((be - bs) / (2 * fw))" unfolding d .
  have "0 \<le> c2" "c1 \<le> 1" using clamp_unit by (auto simp: c1_def c2_def)
  then have "0 \<le> hermite c1 - hermite c2"
    using smoothstep_poly_mono [of c2 c1] c(1) by simp
  then have "b \<le> hermite c1 - hermite c2" unfolding b by (simp add: clamp_def)
  with h show ?thesis by (simp add: fw_def)
qed

text \<open>With \<open>fwidth = 0.4\<close> the dark line is visible for every noise value in [0, 1].\<close>

lemma line_intensity_wide:
  assumes "- 0.1 < n" "n < 1.1"
  shows "\<exists>li. calculate_line_intensity 0.4 n darkLineThreshold darkLineSharpness = Some li \<and> 0 < li \<and> li \<le> 1"
proof -
  define t where "t = (n - (- 0.1)) / (1.1 - (- 0.1))"
  have t: "0 < t" "t < 1" using assms by (simp_all add: t_def)
  have "smoothstep (- 0.1) 1.1 n = Some (hermite t)"
    unfolding t_def using assms by (intro smoothstep_inside) auto
  then have "calculate_line_intensity 0.4 n darkLineThreshold darkLineSharpness
      = Some (clamp (1 - hermite t) 0 1)"
    by (simp add: calculate_line_intensity_def Let_def)
  moreover have "0 < clamp (1 - hermite t) 0 1" "clamp (1 - hermite t) 0 1 \<le> 1"
    using smoothstep_poly_interior [OF t] by (simp_all add: clamp_def)
  ultimately show ?thesis by blast
qed

text \<open>With \<open>fwidth = 0.1\<close> the foam band is visible for every noise value in [0.09, 1.08].\<close>

lemma band_intensity_wide:
  assumes "0.09 \<le> n" "n \<le> 1.08"
  shows "\<exists>b. calculate_band_intensity 0.1 n foamBandStart foamBandEnd foamBandSharpness = Some b
    \<and> 0 < b \<and> b \<le> 1"
proof -
  define u where "u = (n - 0.08) / (1.08 - 0.08)"
  define d where "d = (n - 0.09) / (1.09 - 0.09)"
  have ud: "0 \<le> d" "d < u" "u \<le> 1" using assms by (simp_all add: u_def d_def)
  have "smoothstep 0.08 1.08 n = Some (hermite u)"
    unfolding u_def using assms by (intro smoothstep_inside) auto
  moreover have "smoothstep 0.09 1.09 n = Some (hermite d)"
    unfolding d_def using assms by (intro smoothstep_inside) auto
  ultimately have "calculate_band_intensity 0.1 n foamBandStart foamBandEnd foamBandSharpness
      = Some (clamp (hermite u - hermite d) 0 1)"
    by (simp add: calculate_band_intensity_def Let_def)
  moreover have "0 < clamp (hermite u - hermite d) 0 1" "clamp (hermite u - hermite d) 0 1 \<le> 1"
    using smoothstep_poly_strict_mono [OF ud] by (simp_all add: clamp_def)
  ultimately show ?thesis by blast
qed


subsection \<open>The lapping wave close to the edge\<close>

text \<open>
  At time 0 and at a distorted distance \<open>d\<close> of at most 0.0106 the phase of the wave is below
  \<open>\<pi>\<close>: the wave value is above 0.5, and the lapping wave is visible.
\<close>

lemma lap_phase:
  fixes d :: real
  assumes "0 < d" "d \<le> 0.0106"
  shows "0 < (d * lapWaveRadialFreq - 0 * lapWaveSpeed) * PI * 2.0"
    and "(d * lapWaveRadialFreq - 0 * lapWaveSpeed) * PI * 2.0 < pi"
proof -
  show "0 < (d * lapWaveRadialFreq - 0 * lapWaveSpeed) * PI * 2.0"
    using assms by (simp add: PI_def)
  have "(d * lapWaveRadialFreq - 0 * lapWaveSpeed) * PI * 2.0 < 2"
    using assms by (simp add: PI_def)
  then show "(d * lapWaveRadialFreq - 0 * lapWaveSpeed) * PI * 2.0 < pi"
    using pi_ge_two by linarith
qed

lemma lap_near_edge:
  assumes "masterTime f = 0" "0 < d" "d \<le> 0.0106"
  shows "\<exists>l. lapLineIntensity_from (Some d) f = Some l \<and> 0 < l"
proof -
  define x where "x = (d * lapWaveRadialFreq - 0 * lapWaveSpeed) * PI * 2.0"
  define wv where "wv = sin x * 0.5 + 0.5"
  define t where "t = (d - edgeWaveFadeDistance) / (0 - edgeWaveFadeDistance)"
  have "0 < sin x" unfolding x_def using lap_phase [OF assms(2,3)] by (intro sin_gt_zero)
  then have wv: "0 < wv" by (simp add: wv_def)
  then have p: "pow wv lapWavePeakSharpness = Some (wv powr lapWavePeakSharpness)"
    by (simp add: pow_defined)
  have t: "0 < t" "t \<le> 1" using assms(2,3) by (simp_all add: t_def)
  have "smoothstep edgeWaveFadeDistance 0 d = Some (hermite t)"
    using t by (simp add: smoothstep_def Let_def clamp_def t_def)
  then have "lapLineIntensity_from (Some d) f
      = Some (clamp (wv powr lapWavePeakSharpness * lapWaveIntensityMultiplier * hermite t) 0 1)"
    using p by (simp add: lapLineIntensity_from_def Let_def assms(1) wv_def x_def)
  moreover have "0 < hermite t" using t by simp
  then have "0 < wv powr lapWavePeakSharpness * lapWaveIntensityMultiplier * hermite t"
    using wv by simp
  then have "0 < clamp (wv powr lapWavePeakSharpness * lapWaveIntensityMultiplier * hermite t) 0 1"
    by (simp add: clamp_def)
  ultimately show ?thesis by blast
qed


subsection \<open>The layers at the sample fragment\<close>

lemma sample_st: "st (sample_with w) = Some (7 / 6, 1 / 40)"
  by (simp add: st_def fdiv_def sample_fragment_def)

lemma sample_masterTime: "masterTime (sample_with w) = 0"
  by (simp add: masterTime_def sample_fragment_def)

lemma sample_patternScale: "patternScale (sample_with w) = 1"
  by (simp add: sample_fragment_def)

lemma sample_mainCurrentVector:
  "mainCurrentVector (sample_with w) =
     Some (snoise (64 / 15, 207 / 100, 3) * 0.025, snoise (127 / 15, 137 / 100, - (47 / 5)) * 0.025)"
  by (simp add: mainCurrentVector_def sample_st sample_masterTime sample_patternScale
      calculate_main_current_def Let_def)

lemma sample_darkNoiseValue01:
  "\<exists>n. 0.9018 < n \<and> n < 0.902 \<and> (\<forall>w. darkNoiseValue01 (sample_with w) = Some n)"
proof -
  define cx where "cx = snoise (64 / 15, 207 / 100, 3) * 0.025"
  define cy where "cy = snoise (127 / 15, 137 / 100, - (47 / 5)) * 0.025"
  have c: "mainCurrentVector (sample_with w) = Some (cx, cy)" for w
    unfolding cx_def cy_def by (rule sample_mainCurrentVector)
  have b: "- 0.0202843 < cx" "cx < - 0.0202841" "- 0.0147273 < cy" "cy < - 0.0147271"
    unfolding cx_def cy_def by (rule sample_main_current_x sample_main_current_y)+
  let ?vx = "(7 / 6 + cx) * 8" and ?vy = "(1 / 40 + cy) * 8"
  have n: "darkNoiseValue01 (sample_with w) = Some (snoise (?vx, ?vy, 0) * 0.5 + 0.5)" for w
    by (simp add: darkNoiseValue01_def dark_final_st_def sample_st c sample_masterTime
        sample_patternScale)
  have "9.1710589 \<le> ?vx" "?vx \<le> 9.1710606" "0.0821816 \<le> ?vy" "?vy \<le> 0.0821832"
    using b by simp_all
  from sample_dark_cell_bounds [OF this] have "0.9018 < snoise (?vx, ?vy, 0) * 0.5 + 0.5"
      "snoise (?vx, ?vy, 0) * 0.5 + 0.5 < 0.902"
    by simp_all
  with n show ?thesis by blast
qed

text \<open>
  The breakup mask is 0 at the coordinate \<open>st\<close> of the sample fragment, whatever the first
  UV map.
\<close>

lemma sample_breakupMask:
  assumes "st f = Some (7 / 6, 1 / 40)" "patternScale f = 1" "masterTime f = 0"
  shows "breakupMask f = Some 0"
proof -
  define nb where "nb = snoise (7 / 4, 3 / 80, 0) * 0.5 + 0.5"
  have n: "breakupMaskNoise f = Some nb"
    by (simp add: breakupMaskNoise_def assms nb_def)
  have "nb \<le> 0.625" unfolding nb_def using sample_breakup_noise(2) by simp
  then have "smoothstep 0.625 0.675 nb = Some 0" by (intro smoothstep_below) auto
  then show ?thesis by (simp add: breakupMask_def n)
qed

lemma normalize_down: "y < 0 \<Longrightarrow> normalize2 (0, y) = Some (0, - 1)"
  by (simp add: normalize2.simps length2_def)

lemma sample_distortedDistToEdge:
  "\<exists>d. distortedDistToEdge (sample_with w) = Some d \<and> 0.08 \<le> d"
proof -
  define ex where "ex = snoise (7.5, 3.75, 0) * 0.1"
  define ey where "ey = snoise (253 / 10, - (31 / 20), 291 / 10) * 0.1"
  have e: "edgeDistortion (sample_with w) = (ex, ey)"
    by (simp add: edgeDistortion_def st_orig_def masterTime_def sample_fragment_def Let_def
        ex_def ey_def)
  have ey: "- 0.043725 < ey" unfolding ey_def by (rule sample_edge_noise)
  have n: "normalize2 (fst (st_orig (sample_with w)) - 0.5, snd (st_orig (sample_with w)) - 0.5)
      = Some (0, - 1)"
    using normalize_down [of "- 0.25"] by (simp add: st_orig_def sample_fragment_def)
  have d: "distToEdge (sample_with w) = 0.25"
    by (simp add: distToEdge_def st_orig_def sample_fragment_def Let_def)
  have "distortedDistToEdge (sample_with w) = Some (max (0.25 - (ex * 0 + ey * (- 1)) * 0.5) 0.0001)"
    using n by (simp add: distortedDistToEdge_def e d)
  moreover have "0.08 \<le> max (0.25 - (ex * 0 + ey * (- 1)) * 0.5) 0.0001"
    using ey by simp
  ultimately show ?thesis by blast
qed

lemma sample_lapLineIntensity_final: "lapLineIntensity_final (sample_with w) = Some 0"
proof -
  obtain d where d: "distortedDistToEdge (sample_with w) = Some d" "0.08 \<le> d"
    using sample_distortedDistToEdge by blast
  have "smoothstep edgeWaveFadeDistance 0 d = Some 0"
    using d(2) by (intro smoothstep_falling_beyond) auto
  then show ?thesis
    using d(1) pow_sine_wave [of lapWavePeakSharpness]
    by (simp add: lapLineIntensity_final_eq Let_def clamp_def)
qed

lemma sample_radialWaveIntensity_final: "radialWaveIntensity_final (sample_with w) = Some 0"
proof -
  have "atan2 (1 / 40 - 0.5) (7 / 6 - 0.7) \<noteq> None"
    by (rule atan2_defined) simp
  then obtain a where a: "atan2 (1 / 40 - 0.5) (7 / 6 - 0.7) = Some a" by blast
  have "snoise (21 / 10, 9 / 200, 0) * 0.5 + 0.5 \<le> 0.55"
    using sample_radial_mask_noise(2) by simp
  then have "smoothstep radialWaveMaskThreshold (radialWaveMaskThreshold + radialWaveMaskSmoothness)
      (snoise (21 / 10, 9 / 200, 0) * 0.5 + 0.5) = Some 0"
    by (intro smoothstep_below) auto
  then show ?thesis
    using a pow_sine_wave [of radialWaveSharpness]
    by (simp add: radialWaveIntensity_final_def sample_st sample_masterTime sample_patternScale
        Let_def clamp_def)
qed

lemma staticGlowFactor_far: "staticGlowDistance \<le> d \<Longrightarrow> staticGlowFactor d = Some 0"
proof -
  assume "staticGlowDistance \<le> d"
  then have "(d - staticGlowDistance) / (0 - staticGlowDistance) \<le> 0" by simp
  then have "glow_ramp d = 0" by (simp add: clamp_def)
  then show ?thesis by (simp add: staticGlowFactor_eq Let_def)
qed

lemma sample_staticGlowFactor: "staticGlowFactor (distToEdge (sample_with w)) = Some 0"
  by (rule staticGlowFactor_far) (simp add: distToEdge_def st_orig_def sample_fragment_def Let_def)

lemma sample_fwidths: "fwidthDark (sample_with w) = w" "fwidthFoam (sample_with w) = 0.1"
  by (simp_all add: sample_fragment_def)

lemma foamSimplexValue01_defined: "st f = Some p \<Longrightarrow> \<exists>n. foamSimplexValue01 f = Some n"
  by (simp add: foamSimplexValue01_def foam_final_st_def foamCurrentVector_def)

text \<open>
  At the sample fragment the breakup mask is 0, the foam band is faint, and the dark line
  is visible with \<open>fwidth = 0.4\<close> and invisible with \<open>fwidth = 0.1\<close> or \<open>0.2\<close>.
\<close>

lemma sample_stages:
  "\<exists>b li. 0 \<le> b \<and> b < 1 \<and> 0 < li \<and> li \<le> 1 \<and>
     (\<forall>s w. foamIntensity_masked s (sample_with w) = Some (b * (1 - 0 * s))) \<and>
     (\<forall>s. darkLineIntensity s (sample_with 0.4) = Some (li * darkLineOpacity * (1 - 0 * s))) \<and>
     (\<forall>s. darkLineIntensity s (sample_with 0.1) = Some 0)"
proof -
  have m: "breakupMask (sample_with w) = Some 0" for w
    using sample_st sample_patternScale sample_masterTime by (rule sample_breakupMask)
  then have vis: "lineVisibilityMask s (sample_with w) = Some (1 - 0 * s)" for s w
    by (simp add: lineVisibilityMask_def)
  obtain nd where nd: "0.9018 < nd" "nd < 0.902"
    and nd_eq: "\<And>w. darkNoiseValue01 (sample_with w) = Some nd"
    using sample_darkNoiseValue01 by blast
  obtain b where b_eq: "foamIntensity_base sample_fragment = Some b"
    using foamIntensity_base_defined [OF sample_st [of "0.4"]] by (auto simp: sample_fragment_def)
  then obtain nf where "calculate_band_intensity 0.1 nf foamBandStart foamBandEnd foamBandSharpness = Some b"
    by (auto simp: foamIntensity_base_def sample_fragment_def bind_eq_Some_conv)
  then have b: "0 \<le> b" "b < 1"
    using calculate_band_intensity_nonneg [of "0.1" nf foamBandStart foamBandEnd foamBandSharpness b]
      band_intensity_upper [of "0.1" foamBandSharpness foamBandStart foamBandEnd nf b]
    by simp_all
  have "- 0.1 < nd" "nd < 1.1" using nd by simp_all
  then obtain li where li: "0 < li" "li \<le> 1"
    and li_eq: "calculate_line_intensity 0.4 nd darkLineThreshold darkLineSharpness = Some li"
    using line_intensity_wide by blast
  have base: "foamIntensity_base (sample_with w) = Some b" for w
    using b_eq by (simp add: foamIntensity_base_def foamSimplexValue01_def foam_final_st_def
        foamCurrentVector_def st_def sample_fragment_def masterTime_def)
  have masked: "foamIntensity_masked s (sample_with w) = Some (b * (1 - 0 * s))" for s w
    by (simp add: foamIntensity_masked_def vis base)
  have wide: "darkLineIntensity s (sample_with 0.4) = Some (li * darkLineOpacity * (1 - 0 * s))" for s
    using li_eq by (simp add: darkLineIntensity_def vis nd_eq sample_fwidths)
  have "calculate_line_intensity 0.1 nd darkLineThreshold darkLineSharpness = Some (if nd < darkLineThreshold then 1 else 0)"
    using nd by (intro line_intensity_outside) simp_all
  then have narrow: "darkLineIntensity s (sample_with 0.1) = Some 0" for s
    using nd by (simp add: darkLineIntensity_def vis nd_eq sample_fwidths)
  from b li masked wide narrow show ?thesis by blast
qed

subsection \<open>The visibility mask\<close>

lemma masked_decreasing:
  fixes u m s1 s2 :: real
  assumes "0 \<le> u" "0 \<le> m" "s1 \<le> s2"
  shows "u * (1 - m * s2) \<le> u * (1 - m * s1)"
    and "0 < u \<Longrightarrow> 0 < m \<Longrightarrow> s1 < s2 \<Longrightarrow> u * (1 - m * s2) < u * (1 - m * s1)"
proof -
  have "m * s1 \<le> m * s2" using assms by (intro mult_left_mono)
  then show "u * (1 - m * s2) \<le> u * (1 - m * s1)" using assms(1) by (intro mult_left_mono) auto
  assume "0 < u" "0 < m" "s1 < s2"
  then have "m * s1 < m * s2" by simp
  then show "u * (1 - m * s2) < u * (1 - m * s1)" using \<open>0 < u\<close> by simp
qed

lemma mix_upper:
  assumes "x \<le> hi" "y \<le> hi" "0 \<le> a" "a \<le> 1"
  shows "mix x y a \<le> hi"
proof -
  have "x * (1 - a) \<le> hi * (1 - a)" using assms by (intro mult_right_mono) auto
  moreover have "y * a \<le> hi * a" using assms by (intro mult_right_mono) auto
  ultimately have "x * (1 - a) + y * a \<le> hi * (1 - a) + hi * a" by linarith
  then show ?thesis by (simp add: mix_def algebra_simps)
qed

lemma sample_main:
  assumes "darkLineIntensity breakupStrength (sample_with w) = Some d"
    and "foamIntensity_masked breakupStrength (sample_with w) = Some fm"
  shows "\<exists>g b. main (sample_with w)
      = Some (clamp (mix (mix 0.15 0.12 (clamp d 0 1)) 0.95 (clamp fm 0 1)) 0 1, g, b, 1)"
  using assms
  by (simp add: main_def finalColor_def finalColor_mixed_def colorWithGlow_def baseColor_def
      glowBoost_def totalFoamIntensity_eq sample_staticGlowFactor sample_lapLineIntensity_final
      sample_radialWaveIntensity_final)

lemma red_channel_differs:
  fixes d fm :: real
  assumes "0 < d" "d \<le> 1" "0 \<le> fm" "fm < 1"
  shows "clamp (mix (mix 0.15 0.12 (clamp d 0 1)) 0.95 (clamp fm 0 1)) 0 1
    \<noteq> clamp (mix (mix 0.15 0.12 (clamp 0 0 1)) 0.95 (clamp fm 0 1)) 0 1"
proof -
  have cd: "clamp d 0 1 = d" "clamp fm 0 1 = fm" "clamp 0 0 1 = (0::real)"
    using assms by (simp_all add: clamp_def)
  define a where "a = mix (mix 0.15 0.12 d) 0.95 fm"
  define b where "b = mix (mix 0.15 0.12 0) 0.95 fm"
  have "0 < 1 - fm" using assms by simp
  with assms(1) have "0 < d * (1 - fm)" by (rule mult_pos_pos)
  moreover have "b - a = 3 / 100 * (d * (1 - fm))"
    by (simp add: a_def b_def mix_def field_simps)
  ultimately have ab: "a < b" by linarith
  have "0.12 \<le> mix 0.15 0.12 d" using assms by (intro mix_lower) auto
  then have a0: "0.12 \<le> a" unfolding a_def using assms by (intro mix_lower) auto
  have "mix 0.15 0.12 0 \<le> 0.95" by (simp add: mix_def)
  then have b1: "b \<le> 0.95" unfolding b_def using assms by (intro mix_upper) auto
  have "clamp a 0 1 = a" "clamp b 0 1 = b" using a0 b1 ab by (simp_all add: clamp_def)
  then show ?thesis using ab by (simp add: cd a_def b_def)
qed

subsection \<open>The layers at the edge fragment\<close>

lemma edge_st: "st edge_fragment = Some (16 / 15, 1 / 5)"
  by (simp add: st_def fdiv_def edge_fragment_def)

lemma edge_masterTime: "masterTime edge_fragment = 0"
  by (simp add: masterTime_def edge_fragment_def)

lemma edge_patternScale: "patternScale edge_fragment = 1"
  by (simp add: edge_fragment_def)

lemma edge_breakupMask: "\<exists>m. breakupMask edge_fragment = Some m \<and> 0 < m \<and> m < 1"
proof -
  define nb where "nb = snoise (8 / 5, 3 / 10, 0) * 0.5 + 0.5"
  define t where "t = (nb - 0.625) / (0.675 - 0.625)"
  have n: "breakupMaskNoise edge_fragment = Some nb"
    by (simp add: breakupMaskNoise_def edge_st edge_masterTime edge_patternScale nb_def)
  have nb: "0.636 < nb" "nb < 0.6361"
    unfolding nb_def using edge_breakup_noise by simp_all
  have t: "0 < t" "t < 1" using nb by (simp_all add: t_def)
  have "smoothstep 0.625 0.675 nb = Some (hermite t)"
    unfolding t_def using nb by (intro smoothstep_inside) auto
  then have "breakupMask edge_fragment = Some (hermite t)" by (simp add: breakupMask_def n)
  with smoothstep_poly_interior [OF t] show ?thesis by blast
qed

lemma edge_mainCurrentVector:
  "mainCurrentVector edge_fragment =
     Some (snoise (299 / 75, 64 / 25, 3) * 0.025, snoise (614 / 75, 93 / 50, - (47 / 5)) * 0.025)"
  by (simp add: mainCurrentVector_def edge_st edge_masterTime edge_patternScale
      calculate_main_current_def Let_def)

lemma edge_darkNoiseValue01:
  "\<exists>n. darkNoiseValue01 edge_fragment = Some n \<and> 0.72 < n \<and> n < 0.73"
proof -
  define cx where "cx = snoise (299 / 75, 64 / 25, 3) * 0.025"
  define cy where "cy = snoise (614 / 75, 93 / 50, - (47 / 5)) * 0.025"
  have c: "mainCurrentVector edge_fragment = Some (cx, cy)"
    unfolding cx_def cy_def by (rule edge_mainCurrentVector)
  have b: "- 0.003099 < cx" "cx < - 0.0030988" "- 0.0028659 < cy" "cy < - 0.0028657"
    unfolding cx_def cy_def by (rule edge_main_current_x edge_main_current_y)+
  let ?vx = "(16 / 15 + cx) * 8" and ?vy = "(1 / 5 + cy) * 8"
  have n: "darkNoiseValue01 edge_fragment = Some (snoise (?vx, ?vy, 0) * 0.5 + 0.5)"
    by (simp add: darkNoiseValue01_def dark_final_st_def edge_st c edge_masterTime
        edge_patternScale)
  have "8.5085413 \<le> ?vx" "?vx \<le> 8.508543" "1.5770728 \<le> ?vy" "?vy \<le> 1.5770744"
    using b by simp_all
  from edge_dark_cell_bounds [OF this] have "0.72 < snoise (?vx, ?vy, 0) * 0.5 + 0.5"
      "snoise (?vx, ?vy, 0) * 0.5 + 0.5 < 0.73"
    by simp_all
  with n show ?thesis by blast
qed

lemma edge_foamCurrentVector:
  "foamCurrentVector edge_fragment =
     Some (snoise (787 / 150, 197 / 50, 123 / 10) * 0.002,
           snoise (2437 / 150, - (404 / 25), - (17 / 10)) * 0.002)"
  by (simp add: foamCurrentVector_def edge_st edge_masterTime edge_patternScale
      calculate_foam_current_def Let_def)

lemma edge_foamSimplexValue01:
  "\<exists>n. foamSimplexValue01 edge_fragment = Some n \<and> 0.47 < n \<and> n < 0.48"
proof -
  define cx where "cx = snoise (787 / 150, 197 / 50, 123 / 10) * 0.002"
  define cy where "cy = snoise (2437 / 150, - (404 / 25), - (17 / 10)) * 0.002"
  have c: "foamCurrentVector edge_fragment = Some (cx, cy)"
    unfolding cx_def cy_def by (rule edge_foamCurrentVector)
  have b: "- 0.000078 < cx" "cx < - 0.0000778" "0.0006793 < cy" "cy < 0.0006795"
    unfolding cx_def cy_def by (rule edge_foam_current_x edge_foam_current_y)+
  let ?vx = "(16 / 15 + cx) * 12" and ?vy = "(1 / 5 + cy) * 12"
  have n: "foamSimplexValue01 edge_fragment = Some (snoise (?vx, ?vy, 0) * 0.5 + 0.5)"
    by (simp add: foamSimplexValue01_def foam_final_st_def edge_st c edge_masterTime
        edge_patternScale)
  have "12.799064 \<le> ?vx" "?vx \<le> 12.7990664" "2.4081516 \<le> ?vy" "?vy \<le> 2.408154"
    using b by simp_all
  from edge_foam_cell_bounds [OF this] have "0.47 < snoise (?vx, ?vy, 0) * 0.5 + 0.5"
      "snoise (?vx, ?vy, 0) * 0.5 + 0.5 < 0.48"
    by simp_all
  with n show ?thesis by blast
qed

text \<open>
  At the edge fragment the breakup mask is strictly between 0 and 1, and the dark line and
  the foam band are visible.
\<close>

lemma edge_stages:
  "\<exists>m u fb. 0 < m \<and> m < 1 \<and> 0 < u \<and> 0 < fb \<and>
     breakupMask edge_fragment = Some m \<and> foamIntensity_base edge_fragment = Some fb \<and>
     (\<forall>s. darkLineIntensity s edge_fragment = Some (u * (1 - m * s))) \<and>
     (\<forall>s. foamIntensity_masked s edge_fragment = Some (fb * (1 - m * s)))"
proof -
  obtain m where m: "breakupMask edge_fragment = Some m" "0 < m" "m < 1"
    using edge_breakupMask by blast
  then have vis: "lineVisibilityMask s edge_fragment = Some (1 - m * s)" for s
    by (simp add: lineVisibilityMask_def)
  obtain nd where nd_eq: "darkNoiseValue01 edge_fragment = Some nd" and nd: "0.72 < nd" "nd < 0.73"
    using edge_darkNoiseValue01 by blast
  obtain nf where nf_eq: "foamSimplexValue01 edge_fragment = Some nf" and nf: "0.47 < nf" "nf < 0.48"
    using edge_foamSimplexValue01 by blast
  have "- 0.1 < nd" "nd < 1.1" using nd by simp_all
  then obtain li where li: "0 < li"
    and li_eq: "calculate_line_intensity 0.4 nd darkLineThreshold darkLineSharpness = Some li"
    using line_intensity_wide by blast
  have "0.09 \<le> nf" "nf \<le> 1.08" using nf by simp_all
  then obtain fb where fb: "0 < fb"
    and fb_eq: "calculate_band_intensity 0.1 nf foamBandStart foamBandEnd foamBandSharpness = Some fb"
    using band_intensity_wide by blast
  have w: "fwidthDark edge_fragment = 0.4" "fwidthFoam edge_fragment = 0.1"
    by (simp_all add: edge_fragment_def)
  have base: "foamIntensity_base edge_fragment = Some fb"
    using fb_eq by (simp add: foamIntensity_base_def nf_eq w)
  have masked: "foamIntensity_masked s edge_fragment = Some (fb * (1 - m * s))" for s
    by (simp add: foamIntensity_masked_def vis base)
  have dark: "darkLineIntensity s edge_fragment = Some (li * darkLineOpacity * (1 - m * s))" for s
    using li_eq by (simp add: darkLineIntensity_def vis nd_eq w)
  have "0 < li * darkLineOpacity" using li by simp
  with m fb base masked dark show ?thesis by blast
qed

text \<open>
  The edge fragment is 0.005 above the lower edge; the distorted distance to the edge is
  below 0.0106 there, and the lapping wave is visible.
\<close>

lemma edge_distortedDistToEdge:
  "\<exists>d. distortedDistToEdge edge_fragment = Some d \<and> 0 < d \<and> d \<le> 0.0106"
proof -
  define ex where "ex = snoise (7.5, 0.075, 0) * 0.1"
  define ey where "ey = snoise (253 / 10, - (209 / 40), 291 / 10) * 0.1"
  have e: "edgeDistortion edge_fragment = (ex, ey)"
    by (simp add: edgeDistortion_def st_orig_def masterTime_def edge_fragment_def Let_def
        ex_def ey_def)
  have ey: "0.007168 < ey" "ey < 0.00717"
    unfolding ey_def by (rule edge_edge_noise)+
  have n: "normalize2 (fst (st_orig edge_fragment) - 0.5, snd (st_orig edge_fragment) - 0.5)
      = Some (0, - 1)"
    using normalize_down [of "- 0.495"] by (simp add: st_orig_def edge_fragment_def)
  have d: "distToEdge edge_fragment = 0.005"
    by (simp add: distToEdge_def st_orig_def edge_fragment_def Let_def)
  have "distortedDistToEdge edge_fragment = Some (max (0.005 - (ex * 0 + ey * (- 1)) * 0.5) 0.0001)"
    using n by (simp add: distortedDistToEdge_def e d)
  moreover have "0 < max (0.005 - (ex * 0 + ey * (- 1)) * 0.5) 0.0001"
      "max (0.005 - (ex * 0 + ey * (- 1)) * 0.5) 0.0001 \<le> 0.0106"
    using ey by simp_all
  ultimately show ?thesis by blast
qed

lemma edge_lapLineIntensity_final: "\<exists>l. lapLineIntensity_final edge_fragment = Some l \<and> 0 < l"
proof -
  obtain d where d: "distortedDistToEdge edge_fragment = Some d" "0 < d" "d \<le> 0.0106"
    using edge_distortedDistToEdge by blast
  show ?thesis
    unfolding lapLineIntensity_final_def d(1) using edge_masterTime d(2,3) by (rule lap_near_edge)
qed

subsection \<open>The layers at the centre\<close>









section \<open>The claims\<close>

text \<open>
  C1. Whenever \<open>main\<close> returns a colour, each of its red, green and blue channels lies
  in [0, 1] and its alpha is the constant 1.
\<close>

theorem C1_output_range:
  assumes "main f = Some (r, g, b, a)"
  shows "0 \<le> r \<and> r \<le> 1 \<and> 0 \<le> g \<and> g \<le> 1 \<and> 0 \<le> b \<and> b \<le> 1 \<and> a = 1"
proof -
  from assms obtain c where c: "finalColor breakupStrength f = Some c"
    and out: "(r, g, b, a) = (fst c, fst (snd c), snd (snd c), 1)"
    by (auto simp: main_def bind_eq_Some_conv)
  from c obtain m where "c = clamp3 m 0 1"
    by (auto simp: finalColor_def bind_eq_Some_conv)
  then obtain mr mg mb where "c = (clamp mr 0 1, clamp mg 0 1, clamp mb 0 1)"
    by (cases m) auto
  with out show ?thesis using clamp_unit by auto
qed

theorem C1_output_range_witness:
  "\<exists>r g b a. main sample_fragment = Some (r, g, b, a) \<and>
     0 \<le> r \<and> r \<le> 1 \<and> 0 \<le> g \<and> g \<le> 1 \<and> 0 \<le> b \<and> b \<le> 1 \<and> a = 1"
proof -
  obtain c where "main sample_fragment = Some c"
    using sample_fragment_defined(2) by blast
  then obtain r g b a where c: "main sample_fragment = Some (r, g, b, a)"
    by (cases c) auto
  from C1_output_range [OF c] c show ?thesis by blast
qed

text \<open>
  C2. The claim is that the evaluation is defined on every input, in particular at the
  centre \<open>uv = (0.5, 0.5)\<close>. At the centre \<open>normalize\<close> receives the zero vector (line 280)
  and divides by its length 0: the shader returns no defined colour there.
\<close>

theorem C2_center_undefined: "main scenario_fragment = None"
  by (rule center_undefined) (simp add: scenario_fragment_def)

text \<open>
  C3. Whenever the final colour is defined, the total foam intensity is the sum of the
  foam band times the visibility mask \<open>1 - breakupMask * s\<close>, of the lapping wave and of
  the radial wave, clamped to [0, 1]; and the final colour is the mix of the glowing colour
  and the foam colour by that intensity, clamped to [0, 1] in each channel. The lapping
  wave is not masked: it is the same at every fragment with the same \<open>vUv\<close>,
  \<open>patternScale\<close> and \<open>masterTime\<close>, whatever \<open>vUv2\<close> and \<open>resolution\<close>, from which the
  breakup mask is computed, and whatever the breakup strength \<open>s\<close>.
\<close>

theorem C3_compositor:
  assumes "finalColor s f = Some c"
  shows "\<exists>m fb lap rad cg t.
     breakupMask f = Some m \<and> foamIntensity_base f = Some fb \<and>
     lapLineIntensity_final f = Some lap \<and> radialWaveIntensity_final f = Some rad \<and>
     colorWithGlow s f = Some cg \<and> totalFoamIntensity s f = Some t \<and>
     foamIntensity_masked s f = Some (fb * (1 - m * s)) \<and>
     t = clamp (fb * (1 - m * s) + lap + rad) 0 1 \<and>
     c = clamp3 (mix3 cg colorFoamLine t) 0 1 \<and>
     (\<forall>f'. vUv f' = vUv f \<and> patternScale f' = patternScale f \<and> masterTime f' = masterTime f
        \<longrightarrow> lapLineIntensity_final f' = Some lap)"
proof -
  from assms obtain m fb lap rad cg t where *:
    "breakupMask f = Some m" "foamIntensity_base f = Some fb"
    "lapLineIntensity_final f = Some lap" "radialWaveIntensity_final f = Some rad"
    "colorWithGlow s f = Some cg" "totalFoamIntensity s f = Some t"
    "foamIntensity_masked s f = Some (fb * (1 - m * s))"
    "t = clamp (fb * (1 - m * s) + lap + rad) 0 1"
    "c = clamp3 (mix3 cg colorFoamLine t) 0 1"
    by (auto simp: finalColor_def finalColor_mixed_def totalFoamIntensity_eq
        foamIntensity_masked_def lineVisibilityMask_def bind_eq_Some_conv)
  have "lapLineIntensity_final f' = Some lap"
    if "vUv f' = vUv f" "patternScale f' = patternScale f" "masterTime f' = masterTime f" for f'
    using lapLineIntensity_final_cong [OF that] *(3) by simp
  with * show ?thesis by blast
qed

text \<open>
  At the edge fragment the breakup mask, the foam band and the lapping wave are all
  positive. Moving the fragment in the second UV map to a point where the breakup mask is 0
  leaves the lapping wave as it is.
\<close>

theorem C3_compositor_witness:
  "\<exists>c m fb lap rad cg t.
     finalColor breakupStrength edge_fragment = Some c \<and>
     breakupMask edge_fragment = Some m \<and> 0 < m \<and>
     foamIntensity_base edge_fragment = Some fb \<and> 0 < fb \<and>
     lapLineIntensity_final edge_fragment = Some lap \<and> 0 < lap \<and>
     radialWaveIntensity_final edge_fragment = Some rad \<and>
     colorWithGlow breakupStrength edge_fragment = Some cg \<and>
     totalFoamIntensity breakupStrength edge_fragment = Some t \<and>
     foamIntensity_masked breakupStrength edge_fragment = Some (fb * (1 - m * breakupStrength)) \<and>
     t = clamp (fb * (1 - m * breakupStrength) + lap + rad) 0 1 \<and>
     c = clamp3 (mix3 cg colorFoamLine t) 0 1 \<and>
     breakupMask (edge_fragment\<lparr>vUv2 := (0.875, 0.025)\<rparr>) = Some 0 \<and>
     lapLineIntensity_final (edge_fragment\<lparr>vUv2 := (0.875, 0.025)\<rparr>) = Some lap"
proof -
  let ?g = "edge_fragment\<lparr>vUv2 := (0.875, 0.025)\<rparr>"
  have "\<exists>c. finalColor breakupStrength edge_fragment = Some c"
    by (rule main_defined; simp add: edge_fragment_def)
  then obtain c where c: "finalColor breakupStrength edge_fragment = Some c" by blast
  from C3_compositor [OF c] obtain m fb lap rad cg t where *:
    "breakupMask edge_fragment = Some m" "foamIntensity_base edge_fragment = Some fb"
    "lapLineIntensity_final edge_fragment = Some lap"
    "radialWaveIntensity_final edge_fragment = Some rad"
    "colorWithGlow breakupStrength edge_fragment = Some cg"
    "totalFoamIntensity breakupStrength edge_fragment = Some t"
    "foamIntensity_masked breakupStrength edge_fragment = Some (fb * (1 - m * breakupStrength))"
    "t = clamp (fb * (1 - m * breakupStrength) + lap + rad) 0 1"
    "c = clamp3 (mix3 cg colorFoamLine t) 0 1"
    and ind: "\<And>f'. vUv f' = vUv edge_fragment \<and> patternScale f' = patternScale edge_fragment \<and>
      masterTime f' = masterTime edge_fragment \<Longrightarrow> lapLineIntensity_final f' = Some lap"
    by blast
  have pos: "0 < m" "0 < fb" "0 < lap"
    using edge_stages edge_lapLineIntensity_final *(1,2,3) by auto
  have "lapLineIntensity_final ?g = Some lap"
    by (rule ind) (simp add: masterTime_def)
  moreover have "breakupMask ?g = Some 0"
    by (rule sample_breakupMask) (simp_all add: st_def fdiv_def masterTime_def edge_fragment_def)
  ultimately show ?thesis using c * pos by blast
qed

text \<open>
  C4. At a fragment where the breakup mask \<open>m\<close> is positive, for breakup strengths
  \<open>0 \<le> s1 \<le> s2 \<le> 1\<close>: the dark-line intensity and the masked foam-band intensity are the
  unmasked intensity times \<open>1 - m * s\<close>, so neither is larger at \<open>s2\<close> than at \<open>s1\<close>, and each
  is strictly smaller at \<open>s2\<close> when \<open>s1 < s2\<close> and its unmasked intensity is positive.
\<close>

theorem C4_mask_suppression:
  assumes "breakupMask f = Some m" "0 < m"
    and "0 \<le> s1" "s1 \<le> s2" "s2 \<le> 1"
    and "darkLineIntensity s1 f = Some d1" "darkLineIntensity s2 f = Some d2"
    and "foamIntensity_masked s1 f = Some b1" "foamIntensity_masked s2 f = Some b2"
  shows "d2 \<le> d1 \<and> b2 \<le> b1 \<and>
    (\<exists>u fb. darkLineIntensity 0 f = Some u \<and> foamIntensity_base f = Some fb \<and>
       d1 = u * (1 - m * s1) \<and> d2 = u * (1 - m * s2) \<and>
       b1 = fb * (1 - m * s1) \<and> b2 = fb * (1 - m * s2) \<and>
       (s1 < s2 \<and> 0 < u \<longrightarrow> d2 < d1) \<and> (s1 < s2 \<and> 0 < fb \<longrightarrow> b2 < b1))"
proof -
  have vis: "lineVisibilityMask s f = Some (1 - m * s)" for s
    using assms(1) by (simp add: lineVisibilityMask_def)
  from assms(6) obtain n li where n: "darkNoiseValue01 f = Some n"
    and li: "calculate_line_intensity (fwidthDark f) n darkLineThreshold darkLineSharpness = Some li"
    by (auto simp: darkLineIntensity_def bind_eq_Some_conv)
  define u where "u = li * darkLineOpacity"
  have dark: "darkLineIntensity s f = Some (u * (1 - m * s))" for s
    using li by (simp add: darkLineIntensity_def vis n u_def)
  from assms(8) obtain fb where fb: "foamIntensity_base f = Some fb"
    by (auto simp: foamIntensity_masked_def bind_eq_Some_conv)
  have foam: "foamIntensity_masked s f = Some (fb * (1 - m * s))" for s
    by (simp add: foamIntensity_masked_def vis fb)
  have u0: "0 \<le> u" using calculate_line_intensity_nonneg [OF li] by (simp add: u_def)
  have fb0: "0 \<le> fb"
    using fb calculate_band_intensity_nonneg
    by (auto simp: foamIntensity_base_def bind_eq_Some_conv)
  have m0: "0 \<le> m" using assms(2) by simp
  have d: "d1 = u * (1 - m * s1)" "d2 = u * (1 - m * s2)"
    using assms(6,7) dark by simp_all
  have b: "b1 = fb * (1 - m * s1)" "b2 = fb * (1 - m * s2)"
    using assms(8,9) foam by simp_all
  have "d2 \<le> d1" unfolding d using u0 m0 assms(4) by (rule masked_decreasing(1))
  moreover have "b2 \<le> b1" unfolding b using fb0 m0 assms(4) by (rule masked_decreasing(1))
  moreover have "d2 < d1" if "s1 < s2" "0 < u"
    unfolding d using u0 m0 assms(4) that(2) assms(2) that(1) by (rule masked_decreasing(2))
  moreover have "b2 < b1" if "s1 < s2" "0 < fb"
    unfolding b using fb0 m0 assms(4) that(2) assms(2) that(1) by (rule masked_decreasing(2))
  moreover have "darkLineIntensity 0 f = Some u" using dark [of 0] by simp
  ultimately show ?thesis using fb d b by blast
qed

theorem C4_mask_suppression_witness:
  "\<exists>m d1 d2 b1 b2 u fb.
     breakupMask edge_fragment = Some m \<and> 0 < m \<and>
     darkLineIntensity 0 edge_fragment = Some d1 \<and> darkLineIntensity 1 edge_fragment = Some d2 \<and>
     foamIntensity_masked 0 edge_fragment = Some b1 \<and>
     foamIntensity_masked 1 edge_fragment = Some b2 \<and>
     darkLineIntensity 0 edge_fragment = Some u \<and> 0 < u \<and>
     foamIntensity_base edge_fragment = Some fb \<and> 0 < fb \<and>
     d2 < d1 \<and> b2 < b1"
proof -
  obtain m u fb where *: "0 < m" "m < 1" "0 < u" "0 < fb"
    "breakupMask edge_fragment = Some m" "foamIntensity_base edge_fragment = Some fb"
    "\<And>s. darkLineIntensity s edge_fragment = Some (u * (1 - m * s))"
    "\<And>s. foamIntensity_masked s edge_fragment = Some (fb * (1 - m * s))"
    using edge_stages by blast
  have d: "darkLineIntensity 0 edge_fragment = Some (u * (1 - m * 0))"
      "darkLineIntensity 1 edge_fragment = Some (u * (1 - m * 1))"
    using *(7) [of 0] *(7) [of 1] by simp_all
  have f: "foamIntensity_masked 0 edge_fragment = Some (fb * (1 - m * 0))"
      "foamIntensity_masked 1 edge_fragment = Some (fb * (1 - m * 1))"
    using *(8) [of 0] *(8) [of 1] by simp_all
  have u: "darkLineIntensity 0 edge_fragment = Some u" using d(1) by simp
  from C4_mask_suppression [OF *(5) \<open>0 < m\<close> _ _ _ d f, simplified] u *(3,4,5,6) d f
  show ?thesis by (auto simp del: mult_cancel_left mult_cancel_right)
qed

text \<open>
  C5. The claim is that two invocations with the same \<open>uv\<close>, \<open>uv2\<close>, \<open>time\<close>,
  \<open>resolution\<close>, \<open>patternScale\<close> and \<open>timeScale\<close> return the same colour. The shader
  also reads the screen-space derivative \<open>fwidth(noiseValue01)\<close> (lines 95 and 103): the
  two fragments below agree on the six inputs and differ in that derivative for the dark
  lines (0.4 and 0.1), and their colours differ in the red channel.
\<close>

theorem C5_fwidth_counterexample:
  "vUv sample_fragment = vUv (sample_fragment\<lparr>fwidthDark := 0.1\<rparr>) \<and>
   vUv2 sample_fragment = vUv2 (sample_fragment\<lparr>fwidthDark := 0.1\<rparr>) \<and>
   time sample_fragment = time (sample_fragment\<lparr>fwidthDark := 0.1\<rparr>) \<and>
   resolution sample_fragment = resolution (sample_fragment\<lparr>fwidthDark := 0.1\<rparr>) \<and>
   patternScale sample_fragment = patternScale (sample_fragment\<lparr>fwidthDark := 0.1\<rparr>) \<and>
   timeScale sample_fragment = timeScale (sample_fragment\<lparr>fwidthDark := 0.1\<rparr>) \<and>
   main sample_fragment \<noteq> None \<and> main (sample_fragment\<lparr>fwidthDark := 0.1\<rparr>) \<noteq> None \<and>
   main sample_fragment \<noteq> main (sample_fragment\<lparr>fwidthDark := 0.1\<rparr>)"
proof -
  have s: "sample_with 0.4 = sample_fragment" by (simp add: sample_fragment_def)
  obtain b li where *: "0 \<le> b" "b < 1" "0 < li" "li \<le> 1"
    "\<And>s w. foamIntensity_masked s (sample_with w) = Some (b * (1 - 0 * s))"
    "\<And>s. darkLineIntensity s (sample_with 0.4) = Some (li * darkLineOpacity * (1 - 0 * s))"
    "\<And>s. darkLineIntensity s (sample_with 0.1) = Some 0"
    using sample_stages by blast
  define d where "d = li * darkLineOpacity * (1 - 0 * breakupStrength)"
  define fm where "fm = b * (1 - 0 * breakupStrength)"
  have d: "0 < d" "d \<le> 1" using *(3,4) by (simp_all add: d_def)
  have fm: "0 \<le> fm" "fm < 1" using *(1,2) by (simp_all add: fm_def)
  obtain g1 b1 where A: "main (sample_with 0.4)
      = Some (clamp (mix (mix 0.15 0.12 (clamp d 0 1)) 0.95 (clamp fm 0 1)) 0 1, g1, b1, 1)"
    using sample_main [of "0.4" d fm] *(5) [of breakupStrength "0.4"] *(6) [of breakupStrength]
    by (auto simp: d_def fm_def)
  obtain g2 b2 where B: "main (sample_with 0.1)
      = Some (clamp (mix (mix 0.15 0.12 (clamp 0 0 1)) 0.95 (clamp fm 0 1)) 0 1, g2, b2, 1)"
    using sample_main [of "0.1" 0 fm] *(5) [of breakupStrength "0.1"] *(7) [of breakupStrength]
    by (auto simp: fm_def)
  have "main (sample_with 0.4) \<noteq> main (sample_with 0.1)"
    using red_channel_differs [OF d fm] unfolding A B by simp
  moreover have "main (sample_with 0.4) \<noteq> None" "main (sample_with 0.1) \<noteq> None"
    using A B by simp_all
  ultimately show ?thesis unfolding s by simp
qed

text \<open>
  C5, amended. Two invocations with the same \<open>uv\<close>, \<open>uv2\<close>, \<open>time\<close>, \<open>resolution\<close>,
  \<open>patternScale\<close> and \<open>timeScale\<close> return the same result if, for each of the two values of
  \<open>fwidth\<close>, either the two invocations read the same value, or both values are positive
  and the noise value lies outside the interval that \<open>fwidth\<close> opens around the threshold:
  at least \<open>fwidth * sharpness\<close> away from the threshold of the dark lines, or that far
  below the start or above the end of the foam band. There the antialiasing is inactive, and
  the derivative does not reach the colour.
\<close>

theorem C5_deterministic:
  assumes "vUv f = vUv f'" "vUv2 f = vUv2 f'" "time f = time f'" "resolution f = resolution f'"
    "patternScale f = patternScale f'" "timeScale f = timeScale f'"
    and dark: "fwidthDark f = fwidthDark f' \<or>
      (\<exists>nd. darkNoiseValue01 f = Some nd \<and> 0 < fwidthDark f \<and> 0 < fwidthDark f' \<and>
         max (fwidthDark f) (fwidthDark f') * darkLineSharpness \<le> \<bar>nd - darkLineThreshold\<bar>)"
    and foam: "fwidthFoam f = fwidthFoam f' \<or>
      (\<exists>nf. foamSimplexValue01 f = Some nf \<and> 0 < fwidthFoam f \<and> 0 < fwidthFoam f' \<and>
         (nf + max (fwidthFoam f) (fwidthFoam f') * foamBandSharpness \<le> foamBandStart \<or>
          foamBandEnd + max (fwidthFoam f) (fwidthFoam f') * foamBandSharpness \<le> nf))"
  shows "main f = main f'"
proof (rule main_cong_stages)
  show mt: "masterTime f = masterTime f'" by (simp add: masterTime_def assms)
  note nv = noise_values_cong [OF assms(2) assms(4) assms(5) mt]
  show "darkLineIntensity s f = darkLineIntensity s f'" for s
    using dark
  proof
    assume "fwidthDark f = fwidthDark f'"
    then show ?thesis using nv(1) [of s] nv(2) by (simp add: darkLineIntensity_def)
  next
    assume "\<exists>nd. darkNoiseValue01 f = Some nd \<and> 0 < fwidthDark f \<and> 0 < fwidthDark f' \<and>
      max (fwidthDark f) (fwidthDark f') * darkLineSharpness \<le> \<bar>nd - darkLineThreshold\<bar>"
    then obtain nd where nd: "darkNoiseValue01 f = Some nd"
      and w: "0 < fwidthDark f" "0 < fwidthDark f'"
      and o: "max (fwidthDark f) (fwidthDark f') * darkLineSharpness \<le> \<bar>nd - darkLineThreshold\<bar>"
      by blast
    from o have "fwidthDark f * darkLineSharpness \<le> \<bar>nd - darkLineThreshold\<bar>"
        "fwidthDark f' * darkLineSharpness \<le> \<bar>nd - darkLineThreshold\<bar>"
      by (simp_all add: max_def split: if_splits)
    with w have "calculate_line_intensity (fwidthDark f) nd darkLineThreshold darkLineSharpness
        = calculate_line_intensity (fwidthDark f') nd darkLineThreshold darkLineSharpness"
      by (simp add: line_intensity_outside)
    then show ?thesis using nd nv(1) [of s] nv(2) by (simp add: darkLineIntensity_def)
  qed
  show "foamIntensity_base f = foamIntensity_base f'"
    using foam
  proof
    assume "fwidthFoam f = fwidthFoam f'"
    then show ?thesis using nv(3) by (simp add: foamIntensity_base_def)
  next
    assume "\<exists>nf. foamSimplexValue01 f = Some nf \<and> 0 < fwidthFoam f \<and> 0 < fwidthFoam f' \<and>
      (nf + max (fwidthFoam f) (fwidthFoam f') * foamBandSharpness \<le> foamBandStart \<or>
       foamBandEnd + max (fwidthFoam f) (fwidthFoam f') * foamBandSharpness \<le> nf)"
    then obtain nf where nf: "foamSimplexValue01 f = Some nf"
      and w: "0 < fwidthFoam f" "0 < fwidthFoam f'"
      and o: "nf + max (fwidthFoam f) (fwidthFoam f') * foamBandSharpness \<le> foamBandStart \<or>
        foamBandEnd + max (fwidthFoam f) (fwidthFoam f') * foamBandSharpness \<le> nf"
      by blast
    from o have "nf + fwidthFoam f * foamBandSharpness \<le> foamBandStart \<or>
        foamBandEnd + fwidthFoam f * foamBandSharpness \<le> nf"
      and "nf + fwidthFoam f' * foamBandSharpness \<le> foamBandStart \<or>
        foamBandEnd + fwidthFoam f' * foamBandSharpness \<le> nf"
      by (auto simp: max_def split: if_splits)
    with w have "calculate_band_intensity (fwidthFoam f) nf foamBandStart foamBandEnd foamBandSharpness
        = calculate_band_intensity (fwidthFoam f') nf foamBandStart foamBandEnd foamBandSharpness"
      by (simp add: band_intensity_outside)
    then show ?thesis using nf nv(3) by (simp add: foamIntensity_base_def)
  qed
qed (rule assms)+

text \<open>
  At the sample fragment the noise value of the dark lines is about 0.9: with the
  derivatives 0.1 and 0.2 the line is off in both invocations, and the colours agree.
\<close>

theorem C5_deterministic_witness:
  "(\<exists>nd. darkNoiseValue01 (sample_with 0.1) = Some nd \<and>
      max (fwidthDark (sample_with 0.1)) (fwidthDark (sample_with 0.2)) * darkLineSharpness
        \<le> \<bar>nd - darkLineThreshold\<bar>) \<and>
   fwidthDark (sample_with 0.1) \<noteq> fwidthDark (sample_with 0.2) \<and>
   fwidthFoam (sample_with 0.1) = fwidthFoam (sample_with 0.2) \<and>
   main (sample_with 0.1) = main (sample_with 0.2) \<and> main (sample_with 0.1) \<noteq> None"
proof -
  obtain nd where nd: "0.9018 < nd" "darkNoiseValue01 (sample_with 0.1) = Some nd"
    using sample_darkNoiseValue01 by blast
  have w: "max (fwidthDark (sample_with 0.1)) (fwidthDark (sample_with 0.2)) * darkLineSharpness
      \<le> \<bar>nd - darkLineThreshold\<bar>"
    using nd(1) by simp
  have "main (sample_with 0.1) = main (sample_with 0.2)"
  proof (rule C5_deterministic)
    show "fwidthDark (sample_with 0.1) = fwidthDark (sample_with 0.2) \<or>
      (\<exists>nd. darkNoiseValue01 (sample_with 0.1) = Some nd \<and>
         0 < fwidthDark (sample_with 0.1) \<and> 0 < fwidthDark (sample_with 0.2) \<and>
         max (fwidthDark (sample_with 0.1)) (fwidthDark (sample_with 0.2)) * darkLineSharpness
           \<le> \<bar>nd - darkLineThreshold\<bar>)"
      using nd(2) w by auto
  qed simp_all
  moreover have "main (sample_with 0.1) \<noteq> None"
    using main_defined(2) [of "sample_with 0.1"] by (auto simp: sample_fragment_def)
  ultimately show ?thesis using nd(2) w by auto
qed

text \<open>
  C6. The claim is that \<open>snoise\<close> stays in [-1, 1], as the comment of line 23 says. With
  the kernel radius 0.51 of line 45 and the scale 105 of line 46 it does not: at the point
  (-0.65, 0.25, -0.9) the noise is above 1, and at (-0.7, 0.4, -0.45) it is below -1.
\<close>

theorem C6_snoise_above_one:
  "1 < snoise (- 0.65, 0.25, - 0.9) \<and> snoise (- 0.7, 0.4, - 0.45) < - 1"
  by (simp add: noise_defs eval_let cong: let_weak_cong)

text \<open>
  C7. The static glow factor is 1 at distance 0 from the edge, 0 from the distance
  \<open>staticGlowDistance\<close> on, and never increases with the distance; \<open>main\<close> evaluates it at
  \<open>distToEdge\<close>, which depends on \<open>vUv\<close> alone, so neither the time nor a noise value
  enters it.
\<close>

theorem C7_static_glow_falloff:
  "staticGlowFactor 0 = Some 1 \<and>
   (staticGlowDistance \<le> d \<longrightarrow> staticGlowFactor d = Some 0) \<and>
   (d1 \<le> d2 \<longrightarrow>
      (\<exists>g1 g2. staticGlowFactor d1 = Some g1 \<and> staticGlowFactor d2 = Some g2 \<and> g2 \<le> g1)) \<and>
   (vUv f = vUv f' \<longrightarrow> staticGlowFactor (distToEdge f) = staticGlowFactor (distToEdge f'))"
proof (intro conjI impI)
  show "staticGlowFactor 0 = Some 1"
    by (simp add: staticGlowFactor_eq clamp_def Let_def)
  show "staticGlowFactor d = Some 0" if "staticGlowDistance \<le> d"
  proof -
    have "(d - staticGlowDistance) / (0 - staticGlowDistance) \<le> 0" using that by simp
    then have "glow_ramp d = 0" by (simp add: clamp_def)
    then show ?thesis by (simp add: staticGlowFactor_eq Let_def)
  qed
  show "\<exists>g1 g2. staticGlowFactor d1 = Some g1 \<and> staticGlowFactor d2 = Some g2 \<and> g2 \<le> g1"
    if "d1 \<le> d2"
  proof -
    obtain g1 g2 where g: "staticGlowFactor d1 = Some g1" "staticGlowFactor d2 = Some g2"
      using staticGlowFactor_eq by blast
    with that staticGlowFactor_antimono show ?thesis by blast
  qed
  show "staticGlowFactor (distToEdge f) = staticGlowFactor (distToEdge f')" if "vUv f = vUv f'"
    using that by (simp add: distToEdge_def st_orig_def)
qed

theorem C7_static_glow_falloff_witness:
  "staticGlowFactor 0 = Some 1 \<and> staticGlowFactor 0.3 = Some 0 \<and>
   (\<exists>g1 g2. staticGlowFactor 0.1 = Some g1 \<and> staticGlowFactor 0.2 = Some g2 \<and> g2 \<le> g1) \<and>
   staticGlowFactor (distToEdge sample_fragment)
     = staticGlowFactor (distToEdge (sample_fragment\<lparr>time := 9\<rparr>))"
  using C7_static_glow_falloff
    [of "0.3" "0.1" "0.2" sample_fragment "sample_fragment\<lparr>time := 9\<rparr>"]
  by simp




text \<open>
  C9. With \<open>timeScale = 0\<close> the output does not depend on the time: any two times give the
  same result of \<open>main\<close>.
\<close>

theorem C9_time_independent:
  assumes "timeScale f = 0"
  shows "main (f\<lparr>time := t1\<rparr>) = main (f\<lparr>time := t2\<rparr>)"
  by (rule main_cong) (simp_all add: masterTime_def assms)

theorem C9_time_independent_witness:
  "timeScale (sample_fragment\<lparr>timeScale := 0\<rparr>) = 0 \<and>
   main (sample_fragment\<lparr>timeScale := 0, time := 0\<rparr>)
     = main (sample_fragment\<lparr>timeScale := 0, time := 5\<rparr>) \<and>
   (\<exists>c. main (sample_fragment\<lparr>timeScale := 0, time := 5\<rparr>) = Some c)"
proof -
  have "\<exists>c. main (sample_fragment\<lparr>timeScale := 0, time := 5\<rparr>) = Some c"
    by (rule main_defined; simp add: sample_fragment_def)
  then show ?thesis
    using C9_time_independent [of "sample_fragment\<lparr>timeScale := 0\<rparr>" 0 5] by simp
qed

text \<open>
  C10. Whenever \<open>main\<close> returns a colour, each channel is at least 0.12: the colour before
  the final clamp is already at least 0.12 in each channel, so the clamp only applies its
  upper bound.
\<close>

theorem C10_never_black:
  assumes "main f = Some (r, g, b, a)"
  shows "0.12 \<le> r \<and> 0.12 \<le> g \<and> 0.12 \<le> b \<and>
    (\<exists>mr mg mb. finalColor_mixed breakupStrength f = Some (mr, mg, mb) \<and>
       0.12 \<le> mr \<and> 0.12 \<le> mg \<and> 0.12 \<le> mb \<and>
       r = min mr 1 \<and> g = min mg 1 \<and> b = min mb 1)"
proof -
  from assms obtain m where m: "finalColor_mixed breakupStrength f = Some m"
    and out: "(r, g, b) = clamp3 m 0 1"
    by (auto simp: main_def finalColor_def bind_eq_Some_conv)
  obtain mr mg mb where m': "m = (mr, mg, mb)" by (cases m) auto
  have lo: "0.12 \<le> mr \<and> 0.12 \<le> mg \<and> 0.12 \<le> mb"
    using finalColor_mixed_lower m m' by blast
  then have "clamp mr 0 1 = min mr 1" "clamp mg 0 1 = min mg 1" "clamp mb 0 1 = min mb 1"
    by (auto intro: clamp_lower_inactive)
  with out m' have rgb: "r = min mr 1" "g = min mg 1" "b = min mb 1" by auto
  with lo have "0.12 \<le> r \<and> 0.12 \<le> g \<and> 0.12 \<le> b" by auto
  with lo rgb m m' show ?thesis by blast
qed

theorem C10_never_black_witness:
  "\<exists>r g b a. main sample_fragment = Some (r, g, b, a) \<and> 0.12 \<le> r \<and> 0.12 \<le> g \<and> 0.12 \<le> b"
proof -
  obtain c where "main sample_fragment = Some c"
    using sample_fragment_defined(2) by blast
  then obtain r g b a where c: "main sample_fragment = Some (r, g, b, a)"
    by (cases c) auto
  from C10_never_black [OF c] c show ?thesis by blast
qed

end
